theory Spec2Isabelle
  imports Complex_Main "HOL-Library.Sublist"
begin

section \<open>Python values\<close>

text \<open>
  The module \<^verbatim>\<open>src/infrastructure/ai/openai_service.py\<close> is a client wrapper: every method
  builds keyword arguments, calls one endpoint of the OpenAI client, and reshapes the reply
  into a dictionary. The embedding keeps Python's dynamic values.

  A \<^verbatim>\<open>str\<close> is a list of Unicode code points (slicing, \<^verbatim>\<open>strip\<close> and \<^verbatim>\<open>in\<close> count code
  points, not bytes); \<^verbatim>\<open>bytes\<close> is a list of 8-bit characters. \<open>U\<close> turns an ASCII literal
  into a \<^verbatim>\<open>str\<close>. A \<^verbatim>\<open>dict\<close> is an association list in insertion order. A \<^verbatim>\<open>float\<close> is
  either finite, represented by the real number its literal denotes, or one of the three
  special values (\<^verbatim>\<open>json.loads\<close> accepts \<^verbatim>\<open>NaN\<close>, \<^verbatim>\<open>Infinity\<close> and \<^verbatim>\<open>-Infinity\<close>); the module
  does no float arithmetic.
\<close>

type_synonym codepoint = nat
type_synonym pystr = "codepoint list"
type_synonym pybytes = "char list"

definition U :: "string \<Rightarrow> pystr" where
  "U s = map of_char s"

datatype pyfloat = Finite real | PosInfinity | NegInfinity | NaN

datatype pyval =
    PNone
  | PBool bool
  | PInt int
  | PFloat pyfloat
  | PStr pystr
  | PBytes pybytes
  | PBytesIO "pystr option" pybytes   \<comment> \<open>\<^verbatim>\<open>io.BytesIO\<close>: its \<^verbatim>\<open>name\<close> attribute if set, its content\<close>
  | PList "pyval list"
  | PDict "(pystr \<times> pyval) list"

type_synonym pydict = "(pystr \<times> pyval) list"

fun type_name :: "pyval \<Rightarrow> pystr" where
  "type_name PNone = U ''NoneType''"
| "type_name (PBool b) = U ''bool''"
| "type_name (PInt i) = U ''int''"
| "type_name (PFloat r) = U ''float''"
| "type_name (PStr s) = U ''str''"
| "type_name (PBytes b) = U ''bytes''"
| "type_name (PBytesIO n b) = U ''_io.BytesIO''"
| "type_name (PList xs) = U ''list''"
| "type_name (PDict d) = U ''dict''"

text \<open>Truth value of an object, as \<^verbatim>\<open>if x:\<close> tests it.\<close>

fun py_truthy :: "pyval \<Rightarrow> bool" where
  "py_truthy PNone = False"
| "py_truthy (PBool b) = b"
| "py_truthy (PInt i) = (i \<noteq> 0)"
| "py_truthy (PFloat r) = (r \<noteq> Finite 0)"
| "py_truthy (PStr s) = (s \<noteq> [])"
| "py_truthy (PBytes b) = (b \<noteq> [])"
| "py_truthy (PBytesIO n b) = True"
| "py_truthy (PList xs) = (xs \<noteq> [])"
| "py_truthy (PDict d) = (d \<noteq> [])"

subsection \<open>Dictionaries\<close>

text \<open>\<^verbatim>\<open>d[k] = v\<close>: an existing key keeps its place, a new key goes last.\<close>

fun dict_set :: "pystr \<Rightarrow> pyval \<Rightarrow> pydict \<Rightarrow> pydict" where
  "dict_set k v [] = [(k, v)]"
| "dict_set k v (p # ps) = (if fst p = k then (k, v) # ps else p # dict_set k v ps)"

text \<open>\<^verbatim>\<open>d.update(other)\<close> stores the items of \<open>other\<close> in their order.\<close>

fun dict_update :: "pydict \<Rightarrow> pydict \<Rightarrow> pydict" where
  "dict_update d [] = d"
| "dict_update d (kv # kvs) = dict_update (dict_set (fst kv) (snd kv) d) kvs"

text \<open>\<^verbatim>\<open>d.get(k, default)\<close> and \<^verbatim>\<open>k in d\<close>.\<close>

definition dict_get :: "pydict \<Rightarrow> pystr \<Rightarrow> pyval \<Rightarrow> pyval" where
  "dict_get d k dflt = (case map_of d k of None \<Rightarrow> dflt | Some v \<Rightarrow> v)"

definition has_key :: "pydict \<Rightarrow> pystr \<Rightarrow> bool" where
  "has_key d k = (map_of d k \<noteq> None)"

section \<open>Exceptions, effects and the environment\<close>

text \<open>
  An exception is an instance of a subclass of \<^verbatim>\<open>Exception\<close>: its class, as far as the
  module's handlers tell classes apart, and its \<^verbatim>\<open>str()\<close>. \<open>OtherException\<close> stands for
  \<^verbatim>\<open>Exception\<close> itself and every subclass not listed (the client's errors among them).
  \<^verbatim>\<open>KeyboardInterrupt\<close>, \<^verbatim>\<open>SystemExit\<close> and task cancellation are not subclasses of
  \<^verbatim>\<open>Exception\<close> and are outside the model.
\<close>

datatype exn_class = JSONDecodeError | TypeError | AttributeError | IndexError | KeyError | OtherException

datatype exn = Exn exn_class pystr

fun exn_class_of :: "exn \<Rightarrow> exn_class" where
  "exn_class_of (Exn c m) = c"

fun str_exn :: "exn \<Rightarrow> pystr" where
  "str_exn (Exn c m) = m"

text \<open>
  What a call does besides returning: the records it hands to the logger and the requests
  it sends to the client, in order.
\<close>

datatype level = INFO | WARNING | ERROR

datatype event =
    Log level pystr
  | ChatCompletionsCreate pydict
  | AudioSpeechCreate pydict
  | AudioTranscriptionsCreate pydict

type_synonym 'a io = "event list \<times> (exn + 'a)"

definition ret :: "'a \<Rightarrow> 'a io" where
  "ret x = ([], Inr x)"

definition raise :: "exn \<Rightarrow> 'a io" where
  "raise e = ([], Inl e)"

text \<open>Sequencing: the second statement runs only if the first did not raise.\<close>

definition bind_io :: "'a io \<Rightarrow> ('a \<Rightarrow> 'b io) \<Rightarrow> 'b io" where
  "bind_io m f =
     (case snd m of
        Inl e \<Rightarrow> (fst m, Inl e)
      | Inr x \<Rightarrow> (fst m @ fst (f x), snd (f x)))"

text \<open>\<^verbatim>\<open>try: m except Exception as e: h e\<close>.\<close>

definition try_except :: "'a io \<Rightarrow> (exn \<Rightarrow> 'a io) \<Rightarrow> 'a io" where
  "try_except m h =
     (case snd m of
        Inl e \<Rightarrow> (fst m @ fst (h e), snd (h e))
      | Inr x \<Rightarrow> (fst m, Inr x))"

text \<open>\<^verbatim>\<open>try: m except json.JSONDecodeError: h\<close>: any other class passes through.\<close>

definition try_except_json :: "'a io \<Rightarrow> 'a io \<Rightarrow> 'a io" where
  "try_except_json m h =
     (case snd m of
        Inl e \<Rightarrow> (if exn_class_of e = JSONDecodeError then (fst m @ fst h, snd h) else (fst m, Inl e))
      | Inr x \<Rightarrow> (fst m, Inr x))"

definition logger_info :: "pystr \<Rightarrow> unit io" where
  "logger_info msg = ([Log INFO msg], Inr ())"

definition logger_warning :: "pystr \<Rightarrow> unit io" where
  "logger_warning msg = ([Log WARNING msg], Inr ())"

definition logger_error :: "pystr \<Rightarrow> unit io" where
  "logger_error msg = ([Log ERROR msg], Inr ())"

subsection \<open>Replies of the client\<close>

record audio_reply =
  reply_data :: pystr
  reply_transcript :: pystr

record chat_message =
  msg_content :: "pystr option"
  msg_audio :: "audio_reply option"

record chat_response =
  choices :: "chat_message list"

record speech_response =
  resp_content :: pybytes

record word_span =
  span_word :: pystr
  span_start :: pyfloat
  span_end :: pyfloat

text \<open>
  The transcription object. The code reads \<^verbatim>\<open>language\<close> and \<^verbatim>\<open>duration\<close> with \<^verbatim>\<open>getattr\<close> and a
  default: \<open>None\<close> is an object without the attribute, \<open>Some v\<close> an object whose attribute
  has the value \<open>v\<close>, which may be \<^verbatim>\<open>None\<close> (\<open>Some PNone\<close>). For \<^verbatim>\<open>words\<close> the code tests
  \<^verbatim>\<open>hasattr(response, 'words') and response.words\<close>, so a missing attribute, \<^verbatim>\<open>None\<close> and the
  empty list all behave alike and are \<open>None\<close> here.
\<close>

record transcription_response =
  resp_text :: pystr
  resp_language :: "pyval option"
  resp_duration :: "pyval option"
  resp_words :: "word_span list option"

subsection \<open>The environment\<close>

text \<open>
  Everything the module uses and does not define: the three endpoints of the client handle
  (each answers a request or raises), the standard library's JSON codec and Base64 encoder,
  the clock, the runtime's lower-case mapping of the code points above U+007F, and the
  runtime's formatting of a value inside an f-string.
\<close>

record env =
  chat_completions_create :: "pydict \<Rightarrow> exn + chat_response"
  audio_speech_create :: "pydict \<Rightarrow> exn + speech_response"
  audio_transcriptions_create :: "pydict \<Rightarrow> exn + transcription_response"
  json_loads :: "pystr \<Rightarrow> exn + pyval"
  json_dumps_indent2 :: "pyval \<Rightarrow> exn + pystr"
  b64encode :: "pybytes \<Rightarrow> pystr"
  utcnow_isoformat :: pystr
  unicode_lower :: "codepoint \<Rightarrow> pystr"
  py_format :: "pyval \<Rightarrow> pystr"

definition client_chat_completions_create :: "env \<Rightarrow> pydict \<Rightarrow> chat_response io" where
  "client_chat_completions_create env kwargs =
     ([ChatCompletionsCreate kwargs], chat_completions_create env kwargs)"

definition client_audio_speech_create :: "env \<Rightarrow> pydict \<Rightarrow> speech_response io" where
  "client_audio_speech_create env kwargs =
     ([AudioSpeechCreate kwargs], audio_speech_create env kwargs)"

definition client_audio_transcriptions_create :: "env \<Rightarrow> pydict \<Rightarrow> transcription_response io" where
  "client_audio_transcriptions_create env kwargs =
     ([AudioTranscriptionsCreate kwargs], audio_transcriptions_create env kwargs)"

definition call_json_loads :: "env \<Rightarrow> pystr \<Rightarrow> pyval io" where
  "call_json_loads env s = ([], json_loads env s)"

definition call_json_dumps :: "env \<Rightarrow> pyval \<Rightarrow> pystr io" where
  "call_json_dumps env v = ([], json_dumps_indent2 env v)"

section \<open>Built-in operations the module relies on\<close>

text \<open>
  \<^verbatim>\<open>str.lower()\<close>: the ASCII letters explicitly; the mapping of the other code points is the
  runtime's table (\<open>unicode_lower\<close>).
\<close>

definition lower_codepoint :: "env \<Rightarrow> codepoint \<Rightarrow> pystr" where
  "lower_codepoint env c =
     (if 65 \<le> c \<and> c \<le> 90 then [c + 32] else if c < 128 then [c] else unicode_lower env c)"

definition py_lower :: "env \<Rightarrow> pystr \<Rightarrow> pystr" where
  "py_lower env s = concat (map (lower_codepoint env) s)"

text \<open>\<^verbatim>\<open>needle in hay\<close> on strings: \<open>needle\<close> occurs as a contiguous run.\<close>

fun py_in :: "pystr \<Rightarrow> pystr \<Rightarrow> bool" where
  "py_in needle [] = (needle = [])"
| "py_in needle (c # cs) = (prefix needle (c # cs) \<or> py_in needle cs)"

text \<open>The code points \<^verbatim>\<open>str.strip()\<close> removes (those for which \<^verbatim>\<open>str.isspace()\<close> holds).\<close>

definition py_isspace :: "codepoint \<Rightarrow> bool" where
  "py_isspace c =
     ((0x09 \<le> c \<and> c \<le> 0x0D) \<or> (0x1C \<le> c \<and> c \<le> 0x20) \<or> c = 0x85 \<or> c = 0xA0
      \<or> c = 0x1680 \<or> (0x2000 \<le> c \<and> c \<le> 0x200A) \<or> c = 0x2028 \<or> c = 0x2029
      \<or> c = 0x202F \<or> c = 0x205F \<or> c = 0x3000)"

definition py_strip :: "pystr \<Rightarrow> pystr" where
  "py_strip s = rev (dropWhile py_isspace (rev (dropWhile py_isspace s)))"

text \<open>\<^verbatim>\<open>s.split(sep)\<close> for a one-character separator, and \<^verbatim>\<open>sep.join(parts)\<close>.\<close>

fun py_split :: "codepoint \<Rightarrow> pystr \<Rightarrow> pystr list" where
  "py_split sep [] = [[]]"
| "py_split sep (c # cs) =
     (if c = sep then [] # py_split sep cs
      else (case py_split sep cs of [] \<Rightarrow> [[c]] | p # ps \<Rightarrow> (c # p) # ps))"

fun py_join :: "pystr \<Rightarrow> pystr list \<Rightarrow> pystr" where
  "py_join sep [] = []"
| "py_join sep [p] = p"
| "py_join sep (p # q # ps) = p @ sep @ py_join sep (q # ps)"

text \<open>\<^verbatim>\<open>xs[0]\<close>, \<^verbatim>\<open>d[k]\<close>, \<^verbatim>\<open>len(v)\<close> and the lookup of a \<^verbatim>\<open>dict\<close> method on a value, each with
  the exception Python raises.\<close>

definition quoted :: "pystr \<Rightarrow> pystr" where
  "quoted s = [39] @ s @ [39]"

definition py_index0 :: "'a list \<Rightarrow> 'a io" where
  "py_index0 xs =
     (case xs of [] \<Rightarrow> raise (Exn IndexError (U ''list index out of range'')) | x # _ \<Rightarrow> ret x)"

definition py_getitem :: "pydict \<Rightarrow> pystr \<Rightarrow> pyval io" where
  "py_getitem d k = (case map_of d k of None \<Rightarrow> raise (Exn KeyError (quoted k)) | Some v \<Rightarrow> ret v)"

definition py_len :: "pyval \<Rightarrow> nat io" where
  "py_len v =
     (case v of
        PStr s \<Rightarrow> ret (length s)
      | PBytes b \<Rightarrow> ret (length b)
      | PList xs \<Rightarrow> ret (length xs)
      | PDict d \<Rightarrow> ret (length d)
      | _ \<Rightarrow> raise (Exn TypeError (U ''object of type '' @ quoted (type_name v) @ U '' has no len()'')))"

definition py_dict_method :: "pyval \<Rightarrow> pystr \<Rightarrow> pydict io" where
  "py_dict_method v name =
     (case v of
        PDict d \<Rightarrow> ret d
      | _ \<Rightarrow> raise (Exn AttributeError
                      (quoted (type_name v) @ U '' object has no attribute '' @ quoted name)))"

definition opt_str :: "pystr option \<Rightarrow> pyval" where
  "opt_str s = (case s of None \<Rightarrow> PNone | Some t \<Rightarrow> PStr t)"

text \<open>The emoji of the log messages and suggestion tags, as code points.\<close>

definition emoji_microphone :: pystr where "emoji_microphone = [0x1F399, 0xFE0F]"
definition emoji_check :: pystr where "emoji_check = [0x2705]"
definition emoji_cross :: pystr where "emoji_cross = [0x274C]"
definition emoji_masks :: pystr where "emoji_masks = [0x1F3AD]"
definition emoji_bulb :: pystr where "emoji_bulb = [0x1F4A1]"
definition emoji_target :: pystr where "emoji_target = [0x1F3AF]"
definition emoji_magnifier :: pystr where "emoji_magnifier = [0x1F50D]"
definition emoji_speaker :: pystr where "emoji_speaker = [0x1F50A]"
definition emoji_brain :: pystr where "emoji_brain = [0x1F9E0]"

section \<open>The operations of \<^verbatim>\<open>OpenAIService\<close>\<close>

text \<open>
  Each method is one function of the environment and the method's arguments, returning the
  events it caused and either the exception it raised or its result. The \<^verbatim>\<open>async\<close> methods
  await one call at a time, so they are modelled as sequential code. The constructor only
  stores the client handle, which is the environment here. An argument annotated
  \<^verbatim>\<open>Union[bytes, str]\<close> or \<^verbatim>\<open>Union[bytes, io.BytesIO]\<close> is a \<open>pyval\<close>, tested as the code tests
  it (\<^verbatim>\<open>isinstance\<close>, truth value); an \<^verbatim>\<open>Optional\<close> argument is an \<open>option\<close>.
\<close>

subsection \<open>\<^verbatim>\<open>process_voice_input_for_matching\<close>\<close>

definition matching_system_prompt :: "pystr \<Rightarrow> pystr" where
  "matching_system_prompt language =
     U (''You are an intelligent voice matching assistant. Users will tell you what topics they want to discuss, please:\<newline>''
        @ ''\<newline>''
        @ ''1. Understand the user's voice content\<newline>''
        @ ''2. Extract main topics (in English)\<newline>''
        @ ''3. Generate English hashtags (for matching algorithm)\<newline>''
        @ ''4. Respond in '')
     @ language
     @ U ('' to confirm understanding and start matching\<newline>''
        @ ''\<newline>''
        @ ''Please return in JSON format:\<newline>''
        @ ''{\<newline>''
        @ ''    \"understood_text\": \"Specific content spoken by the user\",\<newline>''
        @ ''    \"extracted_topics\": [\"Topic1\", \"Topic2\"],\<newline>''
        @ ''    \"generated_hashtags\": [\"#hashtag1\", \"#hashtag2\"],\<newline>''
        @ ''    \"match_intent\": \"Summary of user's matching intent\"\<newline>''
        @ ''}\<newline>''
        @ ''\<newline>''
        @ ''Also respond with a friendly voice to confirm understanding and inform that matching is in progress.'')"

text \<open>The keyword arguments of the request; bytes are Base64-encoded, anything else is passed on.\<close>

definition matching_request :: "env \<Rightarrow> pyval \<Rightarrow> pystr \<Rightarrow> pystr \<Rightarrow> pydict" where
  "matching_request env audio_data audio_format language =
     (let audio_base64 = (case audio_data of PBytes b \<Rightarrow> PStr (b64encode env b) | other \<Rightarrow> other)
      in [(U ''model'', PStr (U ''gpt-4o-audio-preview'')),
          (U ''modalities'', PList [PStr (U ''text''), PStr (U ''audio'')]),
          (U ''audio'', PDict [(U ''voice'', PStr (U ''alloy'')), (U ''format'', PStr (U ''wav''))]),
          (U ''messages'', PList
            [PDict [(U ''role'', PStr (U ''system'')),
                    (U ''content'', PStr (matching_system_prompt language))],
             PDict [(U ''role'', PStr (U ''user'')),
                    (U ''content'', PList
                      [PDict [(U ''type'', PStr (U ''input_audio'')),
                              (U ''input_audio'', PDict [(U ''data'', audio_base64),
                                                         (U ''format'', PStr audio_format)])]])]])])"

definition process_voice_input_for_matching :: "env \<Rightarrow> pyval \<Rightarrow> pystr \<Rightarrow> pystr \<Rightarrow> pydict io" where
  "process_voice_input_for_matching env audio_data audio_format language =
     try_except
       (bind_io (logger_info (emoji_microphone @ U '' Processing voice input with GPT-4o Audio for matching...'')) (\<lambda>_.
        bind_io (client_chat_completions_create env (matching_request env audio_data audio_format language)) (\<lambda>response.
        bind_io (py_index0 (choices response)) (\<lambda>message.
        bind_io (case msg_content message of
                   None \<Rightarrow> ret (PDict [])
                 | Some content \<Rightarrow>
                     if content = [] then ret (PDict [])
                     else try_except_json (call_json_loads env content)
                            (bind_io (logger_warning (U ''Failed to parse JSON response, extracting manually'')) (\<lambda>_.
                             ret (PDict [(U ''understood_text'', PStr content),
                                         (U ''extracted_topics'', PList [PStr (U ''General topic'')]),
                                         (U ''generated_hashtags'', PList [PStr (U ''#general'')]),
                                         (U ''match_intent'', PStr (U ''Wants to chat''))])))) (\<lambda>result_data.
        bind_io (py_dict_method result_data (U ''update'')) (\<lambda>result_dict.
        bind_io (ret (dict_update result_dict
                   [(U ''audio_response'', (case msg_audio message of None \<Rightarrow> PNone | Some a \<Rightarrow> PStr (reply_data a))),
                    (U ''text_response'', opt_str (msg_content message)),
                    (U ''audio_transcript'', (case msg_audio message of None \<Rightarrow> PNone | Some a \<Rightarrow> PStr (reply_transcript a))),
                    (U ''processing_time'', PStr (utcnow_isoformat env))])) (\<lambda>result_dict.
        bind_io (logger_info (emoji_check @ U '' Voice matching processed: ''
                              @ py_format env (dict_get result_dict (U ''extracted_topics'') (PList [])))) (\<lambda>_.
        ret result_dict))))))))
       (\<lambda>e.
        bind_io (logger_error (emoji_cross @ U '' Voice input processing failed: '' @ str_exn e)) (\<lambda>_.
        ret [(U ''understood_text'', PStr (U ''Sorry, I didn't understand what you said'')),
             (U ''extracted_topics'', PList [PStr (U ''General topic'')]),
             (U ''generated_hashtags'', PList [PStr (U ''#general'')]),
             (U ''match_intent'', PStr (U ''General chat'')),
             (U ''audio_response'', PNone),
             (U ''text_response'', PStr (U ''Error processing voice input: '' @ str_exn e)),
             (U ''error'', PStr (str_exn e))]))"

subsection \<open>\<^verbatim>\<open>_extract_suggestions\<close>\<close>

text \<open>Named \<open>extract_suggestions\<close> here: an Isabelle name cannot start with an underscore.\<close>

definition extract_suggestions :: "env \<Rightarrow> pystr \<Rightarrow> pystr list" where
  "extract_suggestions env ai_text =
     (if py_in (U ''suggest'') (py_lower env ai_text)
      then [emoji_bulb @ U '' AI provided a suggestion''] else [])
     @ (if py_in (U ''topic'') (py_lower env ai_text)
        then [emoji_target @ U '' New topic recommendation''] else [])
     @ (if py_in (U ''fact'') (py_lower env ai_text) \<or> py_in (U ''info'') (py_lower env ai_text)
        then [emoji_magnifier @ U '' Fact checking''] else [])"

subsection \<open>\<^verbatim>\<open>moderate_room_conversation\<close>\<close>

definition moderation_system_prompt :: "pystr \<Rightarrow> pystr list option \<Rightarrow> pystr" where
  "moderation_system_prompt moderation_mode room_participants =
     U (''You are an intelligent room host and chat secretary. Current mode: '')
     @ moderation_mode
     @ U (''\<newline>''
        @ ''\<newline>''
        @ ''Your responsibilities:\<newline>''
        @ ''1.  Engage the conversation: Actively provide topics when the conversation is cold\<newline>''
        @ ''2.  Fact Check: When participants mention potentially inaccurate information, provide friendly verification\<newline>''
        @ ''3.  Comment: Respond appropriately to conversation content and provide suggestions\<newline>''
        @ ''4.  Content Moderation: Ensure the conversation is friendly and harmonious\<newline>''
        @ ''5.  Assistive Guidance: Help participants communicate better\<newline>''
        @ ''\<newline>''
        @ ''Current room participants: '')
     @ py_join (U '', '') (case room_participants of None \<Rightarrow> [] | Some ps \<Rightarrow> ps)
     @ U (''\<newline>''
        @ ''\<newline>''
        @ ''Please provide an appropriate response based on the input content, which can be a voice response, a text suggestion, or a topic recommendation.\<newline>''
        @ ''The response should be natural, friendly, and helpful.'')"

definition moderation_request ::
  "env \<Rightarrow> pyval \<Rightarrow> pystr option \<Rightarrow> pyval list option \<Rightarrow> pystr list option \<Rightarrow> pystr \<Rightarrow> pydict" where
  "moderation_request env audio_data text_input conversation_context room_participants moderation_mode =
     (let context_messages =
            [PDict [(U ''role'', PStr (U ''system'')),
                    (U ''content'', PStr (moderation_system_prompt moderation_mode room_participants))]];
          context_messages = context_messages @
            (case conversation_context of
               None \<Rightarrow> []
             | Some history \<Rightarrow> if history \<noteq> [] then drop (length history - 10) history else []);
          user_content =
            (if py_truthy audio_data
             then [PDict [(U ''type'', PStr (U ''input_audio'')),
                          (U ''input_audio'', PDict
                             [(U ''data'', (case audio_data of PBytes b \<Rightarrow> PStr (b64encode env b) | other \<Rightarrow> other)),
                              (U ''format'', PStr (U ''wav''))])]]
             else []);
          user_content = user_content @
            (case text_input of
               None \<Rightarrow> []
             | Some t \<Rightarrow> if t \<noteq> [] then [PDict [(U ''type'', PStr (U ''input_text'')), (U ''text'', PStr t)]] else []);
          context_messages = context_messages @
            [PDict [(U ''role'', PStr (U ''user'')),
                    (U ''content'', PList
                       (if user_content \<noteq> [] then user_content
                        else [PDict [(U ''type'', PStr (U ''input_text'')),
                                     (U ''text'', PStr (U ''Please assist in moderating the conversation''))]]))]]
      in [(U ''model'', PStr (U ''gpt-4o-audio-preview'')),
          (U ''modalities'', PList [PStr (U ''text''), PStr (U ''audio'')]),
          (U ''audio'', PDict [(U ''voice'', PStr (U ''nova'')), (U ''format'', PStr (U ''wav''))]),
          (U ''messages'', PList context_messages),
          (U ''max_tokens'', PInt 300)])"

definition moderate_room_conversation ::
  "env \<Rightarrow> pyval \<Rightarrow> pystr option \<Rightarrow> pyval list option \<Rightarrow> pystr list option \<Rightarrow> pystr \<Rightarrow> pydict io" where
  "moderate_room_conversation env audio_data text_input conversation_context room_participants moderation_mode =
     try_except
       (bind_io (logger_info (emoji_masks @ U '' AI moderating room conversation in '' @ moderation_mode @ U '' mode...'')) (\<lambda>_.
        bind_io (client_chat_completions_create env
                   (moderation_request env audio_data text_input conversation_context room_participants moderation_mode)) (\<lambda>response.
        bind_io (py_index0 (choices response)) (\<lambda>message.
        ret [(U ''ai_response'', PDict
                [(U ''text'', opt_str (msg_content message)),
                 (U ''audio'', (case msg_audio message of None \<Rightarrow> PNone | Some a \<Rightarrow> PStr (reply_data a))),
                 (U ''audio_transcript'', (case msg_audio message of None \<Rightarrow> PNone | Some a \<Rightarrow> PStr (reply_transcript a)))]),
             (U ''moderation_type'', PStr moderation_mode),
             (U ''suggestions'', PList (map PStr
                (extract_suggestions env (case msg_content message of None \<Rightarrow> [] | Some c \<Rightarrow> c)))),
             (U ''timestamp'', PStr (utcnow_isoformat env)),
             (U ''participants'', (case room_participants of None \<Rightarrow> PNone | Some ps \<Rightarrow> PList (map PStr ps)))]))))
       (\<lambda>e.
        bind_io (logger_error (emoji_cross @ U '' Room moderation failed: '' @ str_exn e)) (\<lambda>_.
        ret [(U ''ai_response'', PDict
                [(U ''text'', PStr (U ''AI host encountered an issue: '' @ str_exn e)),
                 (U ''audio'', PNone)]),
             (U ''error'', PStr (str_exn e))]))"

subsection \<open>\<^verbatim>\<open>health_check\<close>\<close>

definition health_probe_request :: pydict where
  "health_probe_request =
     [(U ''model'', PStr (U ''tts-1'')),
      (U ''voice'', PStr (U ''alloy'')),
      (U ''input'', PStr (U ''Health check test''))]"

definition health_check :: "env \<Rightarrow> pydict io" where
  "health_check env =
     try_except
       (bind_io (client_audio_speech_create env health_probe_request) (\<lambda>response.
        ret [(U ''status'', PStr (U ''healthy'')),
             (U ''service'', PStr (U ''openai_tts'')),
             (U ''model'', PStr (U ''tts-1'')),
             (U ''timestamp'', PStr (utcnow_isoformat env))]))
       (\<lambda>e.
        bind_io (logger_error (emoji_cross @ U '' OpenAI health check failed: '' @ str_exn e)) (\<lambda>_.
        ret [(U ''status'', PStr (U ''unhealthy'')),
             (U ''service'', PStr (U ''openai_gpt4o_audio'')),
             (U ''error'', PStr (str_exn e)),
             (U ''timestamp'', PStr (utcnow_isoformat env))]))"

subsection \<open>\<^verbatim>\<open>text_to_speech\<close>\<close>

text \<open>The handler logs and re-raises the exception it caught.\<close>

definition speech_request :: "pystr \<Rightarrow> pystr \<Rightarrow> pyfloat \<Rightarrow> pydict" where
  "speech_request text voice speed =
     [(U ''model'', PStr (U ''tts-1-hd'')),
      (U ''voice'', PStr voice),
      (U ''input'', PStr text),
      (U ''speed'', PFloat speed)]"

definition text_to_speech :: "env \<Rightarrow> pystr \<Rightarrow> pystr \<Rightarrow> pyfloat \<Rightarrow> pybytes io" where
  "text_to_speech env text voice speed =
     try_except
       (bind_io (logger_info (emoji_speaker @ U '' Generating TTS: '' @ take 50 text @ U ''...'')) (\<lambda>_.
        bind_io (client_audio_speech_create env (speech_request text voice speed)) (\<lambda>response.
        bind_io (logger_info (emoji_check @ U '' TTS generated successfully'')) (\<lambda>_.
        ret (resp_content response)))))
       (\<lambda>e.
        bind_io (logger_error (emoji_cross @ U '' TTS generation failed: '' @ str_exn e)) (\<lambda>_.
        raise e))"

subsection \<open>\<^verbatim>\<open>speech_to_text\<close>\<close>

text \<open>Bytes are wrapped in a buffer named \<^verbatim>\<open>audio.mp3\<close>; anything else is passed on as it is.\<close>

definition transcription_request :: "pyval \<Rightarrow> pyval \<Rightarrow> pydict" where
  "transcription_request audio_file language_param =
     (let audio_buffer = (case audio_file of PBytes b \<Rightarrow> PBytesIO (Some (U ''audio.mp3'')) b | other \<Rightarrow> other)
      in [(U ''model'', PStr (U ''whisper-1'')),
          (U ''file'', audio_buffer),
          (U ''language'', language_param),
          (U ''response_format'', PStr (U ''verbose_json'')),
          (U ''timestamp_granularities'', PList [PStr (U ''word'')])])"

definition speech_to_text :: "env \<Rightarrow> pyval \<Rightarrow> pystr \<Rightarrow> pydict io" where
  "speech_to_text env audio_file language =
     try_except
       (bind_io (logger_info (emoji_microphone @ U '' Processing speech-to-text with language: '' @ language)) (\<lambda>_.
        bind_io (if language \<noteq> []
                 then bind_io (py_index0 (py_split 45 language)) (\<lambda>primary. ret (PStr primary))
                 else ret PNone) (\<lambda>language_param.
        bind_io (client_audio_transcriptions_create env (transcription_request audio_file language_param)) (\<lambda>response.
        bind_io (ret (resp_text response)) (\<lambda>transcription.
        bind_io (ret (case resp_language response of None \<Rightarrow> PStr language | Some l \<Rightarrow> l)) (\<lambda>detected_language.
        bind_io (ret (case resp_duration response of None \<Rightarrow> PFloat (Finite 0) | Some d \<Rightarrow> d)) (\<lambda>duration.
        bind_io (ret (case resp_words response of
                        None \<Rightarrow> []
                      | Some ws \<Rightarrow> map (\<lambda>w. PDict [(U ''word'', PStr (span_word w)),
                                                  (U ''start'', PFloat (span_start w)),
                                                  (U ''end'', PFloat (span_end w))]) ws)) (\<lambda>words.
        bind_io (logger_info (emoji_check @ U '' STT completed: '' @ [39] @ take 100 transcription @ U ''...'' @ [39])) (\<lambda>_.
        ret [(U ''text'', PStr transcription),
             (U ''language'', detected_language),
             (U ''duration'', duration),
             (U ''confidence'', PFloat (Finite 0.95)),
             (U ''words'', PList words)])))))))))
       (\<lambda>e.
        bind_io (logger_error (emoji_cross @ U '' Speech-to-text failed: '' @ str_exn e)) (\<lambda>_.
        raise (Exn OtherException (U ''STT processing failed: '' @ str_exn e))))"

subsection \<open>\<^verbatim>\<open>extract_topics_and_hashtags\<close>\<close>

definition topics_system_prompt :: "pystr \<Rightarrow> pystr \<Rightarrow> pystr" where
  "topics_system_prompt language context_info =
     U (''You are an expert at analyzing conversation topics and generating relevant hashtags for social matching.\<newline>''
        @ ''\<newline>''
        @ ''Your task is to analyze the user's input and extract:\<newline>''
        @ ''1. Main topics (3-5 specific topics)\<newline>''
        @ ''2. Relevant hashtags (5-8 hashtags for matching)\<newline>''
        @ ''3. Category classification\<newline>''
        @ ''4. Sentiment analysis\<newline>''
        @ ''5. Conversation style preference\<newline>''
        @ ''\<newline>''
        @ ''Please respond in JSON format:\<newline>''
        @ ''{\<newline>''
        @ ''    \"main_topics\": [\"Topic1\", \"Topic2\", \"Topic3\"],\<newline>''
        @ ''    \"hashtags\": [\"#hashtag1\", \"#hashtag2\", \"#hashtag3\", \"#hashtag4\", \"#hashtag5\"],\<newline>''
        @ ''    \"category\": \"technology|business|lifestyle|entertainment|education|sports|health|travel|other\",\<newline>''
        @ ''    \"sentiment\": \"positive|negative|neutral\",\<newline>''
        @ ''    \"conversation_style\": \"casual|professional|academic|creative\",\<newline>''
        @ ''    \"confidence\": 0.95,\<newline>''
        @ ''    \"summary\": \"Brief summary of what the user wants to discuss\"\<newline>''
        @ ''}\<newline>''
        @ ''\<newline>''
        @ ''Language preference: '')
     @ language
     @ U (''\<newline>''
        @ ''Focus on creating hashtags that will help match users with similar interests.'')
     @ context_info"

definition topics_request :: "pystr \<Rightarrow> pystr \<Rightarrow> pystr \<Rightarrow> pydict" where
  "topics_request text context_info language =
     [(U ''model'', PStr (U ''gpt-4'')),
      (U ''messages'', PList
         [PDict [(U ''role'', PStr (U ''system'')),
                 (U ''content'', PStr (topics_system_prompt language context_info))],
          PDict [(U ''role'', PStr (U ''user'')),
                 (U ''content'', PStr (U ''Please analyze this text and extract topics/hashtags: '' @ text))]]),
      (U ''max_tokens'', PInt 500),
      (U ''temperature'', PFloat (Finite 0.3))]"

text \<open>The prompt suffix built from the optional context; serialising the context can raise.\<close>

definition context_info_of :: "env \<Rightarrow> pydict option \<Rightarrow> pystr io" where
  "context_info_of env context =
     (case context of
        None \<Rightarrow> ret []
      | Some ctx \<Rightarrow>
          if ctx \<noteq> []
          then bind_io (call_json_dumps env (PDict ctx)) (\<lambda>dumped. ret (U ''\<newline>User context: '' @ dumped))
          else ret [])"

definition extract_topics_and_hashtags :: "env \<Rightarrow> pystr \<Rightarrow> pydict option \<Rightarrow> pystr \<Rightarrow> pydict io" where
  "extract_topics_and_hashtags env text context language =
     try_except
       (bind_io (logger_info (emoji_brain @ U '' Extracting topics from text: '' @ take 100 text @ U ''...'')) (\<lambda>_.
        bind_io (context_info_of env context) (\<lambda>context_info.
        bind_io (client_chat_completions_create env (topics_request text context_info language)) (\<lambda>response.
        bind_io (py_index0 (choices response)) (\<lambda>message.
        try_except_json
          (bind_io (case msg_content message of
                      None \<Rightarrow> raise (Exn TypeError
                                 (U ''the JSON object must be str, bytes or bytearray, not NoneType''))
                    | Some content \<Rightarrow> call_json_loads env content) (\<lambda>result.
           bind_io (py_dict_method result (U ''get'')) (\<lambda>result_dict.
           bind_io (logger_info (emoji_check @ U '' Topics extracted: ''
                                 @ py_format env (dict_get result_dict (U ''main_topics'') (PList [])))) (\<lambda>_.
           ret result_dict))))
          (bind_io (logger_warning (U ''Failed to parse JSON response, creating fallback'')) (\<lambda>_.
           ret [(U ''main_topics'', PList [PStr (U ''general''), PStr (U ''conversation'')]),
                (U ''hashtags'', PList [PStr (U ''#chat''), PStr (U ''#social''), PStr (U ''#conversation'')]),
                (U ''category'', PStr (U ''other'')),
                (U ''sentiment'', PStr (U ''neutral'')),
                (U ''conversation_style'', PStr (U ''casual'')),
                (U ''confidence'', PFloat (Finite 0.5)),
                (U ''summary'', PStr (U ''General conversation topic'')),
                (U ''raw_response'', opt_str (msg_content message))])))))))
       (\<lambda>e.
        bind_io (logger_error (emoji_cross @ U '' Topic extraction failed: '' @ str_exn e)) (\<lambda>_.
        ret [(U ''main_topics'', PList [PStr (U ''general'')]),
             (U ''hashtags'', PList [PStr (U ''#general''), PStr (U ''#chat'')]),
             (U ''category'', PStr (U ''other'')),
             (U ''sentiment'', PStr (U ''neutral'')),
             (U ''conversation_style'', PStr (U ''casual'')),
             (U ''confidence'', PFloat (Finite 0.1)),
             (U ''summary'', PStr (U ''Could not analyze topics'')),
             (U ''error'', PStr (str_exn e))]))"

subsection \<open>\<^verbatim>\<open>process_voice_for_hashtags\<close>\<close>

text \<open>
  The composite pipeline. The topic stage is called with the transcription, a three-entry
  context and no \<^verbatim>\<open>language\<close> argument, so with its default \<^verbatim>\<open>en-US\<close>. The value under
  \<^verbatim>\<open>text\<close> is always a \<^verbatim>\<open>str\<close> (see \<open>speech_to_text\<close>); the branch for any other value is
  there for totality and is never taken.
\<close>

definition process_voice_for_hashtags :: "env \<Rightarrow> pyval \<Rightarrow> pystr \<Rightarrow> pystr \<Rightarrow> pydict io" where
  "process_voice_for_hashtags env audio_data audio_format language =
     try_except
       (bind_io (logger_info (emoji_microphone @ U '' Processing voice input for hashtag extraction...'')) (\<lambda>_.
        bind_io (speech_to_text env audio_data language) (\<lambda>stt_result.
        bind_io (py_getitem stt_result (U ''text'')) (\<lambda>transcription_value.
        (case transcription_value of
           PStr transcription \<Rightarrow>
             if py_strip transcription = []
             then ret [(U ''transcription'', PStr []),
                       (U ''main_topics'', PList []),
                       (U ''hashtags'', PList []),
                       (U ''error'', PStr (U ''No speech detected in audio''))]
             else
               bind_io (extract_topics_and_hashtags env transcription
                          (Some [(U ''source'', PStr (U ''voice_input'')),
                                 (U ''language'', PStr language),
                                 (U ''audio_format'', PStr audio_format)])
                          (U ''en-US'')) (\<lambda>topic_result.
               bind_io (py_getitem stt_result (U ''language'')) (\<lambda>stt_language.
               bind_io (py_getitem stt_result (U ''duration'')) (\<lambda>stt_duration.
               bind_io (py_getitem stt_result (U ''confidence'')) (\<lambda>stt_confidence.
               bind_io (ret [(U ''transcription'', PStr transcription),
                             (U ''language'', stt_language),
                             (U ''duration'', stt_duration),
                             (U ''confidence'', stt_confidence),
                             (U ''main_topics'', dict_get topic_result (U ''main_topics'') (PList [])),
                             (U ''hashtags'', dict_get topic_result (U ''hashtags'') (PList [])),
                             (U ''category'', dict_get topic_result (U ''category'') (PStr (U ''other''))),
                             (U ''sentiment'', dict_get topic_result (U ''sentiment'') (PStr (U ''neutral''))),
                             (U ''conversation_style'', dict_get topic_result (U ''conversation_style'') (PStr (U ''casual''))),
                             (U ''summary'', dict_get topic_result (U ''summary'') (PStr (take 100 transcription)))]) (\<lambda>result.
               bind_io (py_getitem result (U ''hashtags'')) (\<lambda>result_hashtags.
               bind_io (py_len result_hashtags) (\<lambda>n.
               bind_io (logger_info (emoji_check @ U '' Voice processing completed: ''
                                     @ py_format env (PInt (int n)) @ U '' hashtags generated'')) (\<lambda>_.
               ret result))))))))
         | other \<Rightarrow>
             raise (Exn AttributeError
                      (quoted (type_name other) @ U '' object has no attribute '' @ quoted (U ''strip''))))))))
       (\<lambda>e.
        bind_io (logger_error (emoji_cross @ U '' Voice hashtag processing failed: '' @ str_exn e)) (\<lambda>_.
        ret [(U ''transcription'', PStr []),
             (U ''main_topics'', PList []),
             (U ''hashtags'', PList []),
             (U ''error'', PStr (str_exn e))]))"

section \<open>Test doubles\<close>

text \<open>
  Concrete environments on which the theorems below are instantiated. The endpoints are
  stubs that answer every request alike. The codec stubs are tables: they hold the values
  of \<^verbatim>\<open>json.loads\<close>, \<^verbatim>\<open>json.dumps(..., indent=2)\<close> and \<^verbatim>\<open>base64.b64encode\<close> at the
  arguments the examples use, and are consulted nowhere else.
\<close>

definition stub_json_loads :: "pystr \<Rightarrow> exn + pyval" where
  "stub_json_loads s =
     (if s = U ''{}'' then Inr (PDict [])
      else if s = U ''42'' then Inr (PInt 42)
      else if s = U ''{\"understood_text\": \"hi\"}''
        then Inr (PDict [(U ''understood_text'', PStr (U ''hi''))])
      else if s = U ''{\"main_topics\": [\"AI\"], \"score\": NaN}''
        then Inr (PDict [(U ''main_topics'', PList [PStr (U ''AI'')]), (U ''score'', PFloat NaN)])
      else if s = U ''{\"error\": \"boom\", \"hashtags\": null}''
        then Inr (PDict [(U ''error'', PStr (U ''boom'')), (U ''hashtags'', PNone)])
      else Inl (Exn JSONDecodeError (U ''Expecting value: line 1 column 1 (char 0)'')))"

definition stub_json_dumps :: "pyval \<Rightarrow> exn + pystr" where
  "stub_json_dumps v =
     (if v = PDict [(U ''source'', PStr (U ''voice_input'')),
                    (U ''language'', PStr (U ''en-US'')),
                    (U ''audio_format'', PStr (U ''mp3''))]
      then Inr (U (''{\<newline>''
                   @ ''  \"source\": \"voice_input\",\<newline>''
                   @ ''  \"language\": \"en-US\",\<newline>''
                   @ ''  \"audio_format\": \"mp3\"\<newline>''
                   @ ''}''))
      else Inr (U ''{}''))"

definition stub_b64encode :: "pybytes \<Rightarrow> pystr" where
  "stub_b64encode b = (if b = ''ABC'' then U ''QUJD'' else [])"

definition stub_format :: "pyval \<Rightarrow> pystr" where
  "stub_format v = (case v of PList [] \<Rightarrow> U ''[]'' | PInt i \<Rightarrow> (if i = 2 then U ''2'' else U ''0'') | _ \<Rightarrow> U ''...'')"

definition stub_env ::
  "(pydict \<Rightarrow> exn + chat_response) \<Rightarrow> (pydict \<Rightarrow> exn + speech_response)
   \<Rightarrow> (pydict \<Rightarrow> exn + transcription_response) \<Rightarrow> env" where
  "stub_env chat speech transcribe =
     \<lparr>chat_completions_create = chat,
      audio_speech_create = speech,
      audio_transcriptions_create = transcribe,
      json_loads = stub_json_loads,
      json_dumps_indent2 = stub_json_dumps,
      b64encode = stub_b64encode,
      utcnow_isoformat = U ''2024-05-01T12:00:00'',
      unicode_lower = (\<lambda>c. [c]),
      py_format = stub_format\<rparr>"

definition endpoint_down :: "pystr \<Rightarrow> pydict \<Rightarrow> exn + 'a" where
  "endpoint_down description kwargs = Inl (Exn OtherException description)"

definition chat_replies :: "pystr option \<Rightarrow> audio_reply option \<Rightarrow> pydict \<Rightarrow> exn + chat_response" where
  "chat_replies content audio kwargs =
     Inr \<lparr>choices = [\<lparr>msg_content = content, msg_audio = audio\<rparr>]\<rparr>"

definition speech_replies :: "pybytes \<Rightarrow> pydict \<Rightarrow> exn + speech_response" where
  "speech_replies audio kwargs = Inr \<lparr>resp_content = audio\<rparr>"

definition transcription_replies :: "pystr \<Rightarrow> pyval option \<Rightarrow> pydict \<Rightarrow> exn + transcription_response" where
  "transcription_replies transcription detected kwargs =
     Inr \<lparr>resp_text = transcription, resp_language = detected,
          resp_duration = Some (PFloat (Finite 1.5)), resp_words = None\<rparr>"

section \<open>Basic facts\<close>

lemma U_eq_iff [simp]: "U a = U b \<longleftrightarrow> a = b"
  by (simp add: U_def inj_map_eq_map inj_of_char)

lemma U_Nil_iff [simp]: "U a = [] \<longleftrightarrow> a = []"
  by (simp add: U_def)

lemma snd_ret [simp]: "snd (ret x) = Inr x"
  by (simp add: ret_def)

lemma fst_ret [simp]: "fst (ret x) = []"
  by (simp add: ret_def)

lemma snd_raise [simp]: "snd (raise e) = Inl e"
  by (simp add: raise_def)

lemma fst_raise [simp]: "fst (raise e) = []"
  by (simp add: raise_def)

lemma snd_logger [simp]:
  "snd (logger_info m) = Inr ()" "snd (logger_warning m) = Inr ()" "snd (logger_error m) = Inr ()"
  by (simp_all add: logger_info_def logger_warning_def logger_error_def)

lemma fst_logger [simp]:
  "fst (logger_info m) = [Log INFO m]" "fst (logger_warning m) = [Log WARNING m]"
  "fst (logger_error m) = [Log ERROR m]"
  by (simp_all add: logger_info_def logger_warning_def logger_error_def)

lemma snd_client [simp]:
  "snd (client_chat_completions_create env k) = chat_completions_create env k"
  "snd (client_audio_speech_create env k) = audio_speech_create env k"
  "snd (client_audio_transcriptions_create env k) = audio_transcriptions_create env k"
  "snd (call_json_loads env s) = json_loads env s"
  "snd (call_json_dumps env v) = json_dumps_indent2 env v"
  by (simp_all add: client_chat_completions_create_def client_audio_speech_create_def
      client_audio_transcriptions_create_def call_json_loads_def call_json_dumps_def)

lemma fst_client [simp]:
  "fst (client_chat_completions_create env k) = [ChatCompletionsCreate k]"
  "fst (client_audio_speech_create env k) = [AudioSpeechCreate k]"
  "fst (client_audio_transcriptions_create env k) = [AudioTranscriptionsCreate k]"
  "fst (call_json_loads env s) = []"
  "fst (call_json_dumps env v) = []"
  by (simp_all add: client_chat_completions_create_def client_audio_speech_create_def
      client_audio_transcriptions_create_def call_json_loads_def call_json_dumps_def)

lemma snd_bind_io: "snd (bind_io m f) = (case snd m of Inl e \<Rightarrow> Inl e | Inr x \<Rightarrow> snd (f x))"
  by (simp add: bind_io_def split: sum.splits)

lemma fst_bind_io:
  "fst (bind_io m f) = (case snd m of Inl e \<Rightarrow> fst m | Inr x \<Rightarrow> fst m @ fst (f x))"
  by (simp add: bind_io_def split: sum.splits)

lemma snd_try_except:
  "snd (try_except m h) = (case snd m of Inl e \<Rightarrow> snd (h e) | Inr x \<Rightarrow> Inr x)"
  by (simp add: try_except_def split: sum.splits)

lemma fst_try_except:
  "fst (try_except m h) = (case snd m of Inl e \<Rightarrow> fst m @ fst (h e) | Inr x \<Rightarrow> fst m)"
  by (simp add: try_except_def split: sum.splits)

lemma snd_try_except_json:
  "snd (try_except_json m h) =
     (case snd m of
        Inl e \<Rightarrow> (if exn_class_of e = JSONDecodeError then snd h else Inl e)
      | Inr x \<Rightarrow> Inr x)"
  by (simp add: try_except_json_def split: sum.splits)

lemma fst_try_except_json:
  "fst (try_except_json m h) =
     (case snd m of
        Inl e \<Rightarrow> (if exn_class_of e = JSONDecodeError then fst m @ fst h else fst m)
      | Inr x \<Rightarrow> fst m)"
  by (simp add: try_except_json_def split: sum.splits)

lemmas io_simps =
  snd_bind_io fst_bind_io snd_try_except fst_try_except snd_try_except_json fst_try_except_json

text \<open>A handler that always returns makes the whole \<^verbatim>\<open>try\<close> statement return.\<close>

lemma try_except_returns:
  assumes "\<And>e. \<exists>y. snd (h e) = Inr y"
  shows "\<exists>y. snd (try_except m h) = Inr y"
  using assms by (cases "snd m") (simp_all add: snd_try_except)

text \<open>\<^verbatim>\<open>in\<close> on strings is the contiguous-sublist relation.\<close>

lemma py_in_sublist: "py_in needle hay \<longleftrightarrow> sublist needle hay"
  by (induction hay) (simp_all add: sublist_Cons_right)

text \<open>\<^verbatim>\<open>split\<close> never returns the empty list, and its first part is the text before the first
  separator.\<close>

lemma py_split_first: "\<exists>ps. py_split sep s = takeWhile (\<lambda>c. c \<noteq> sep) s # ps"
  by (induction s) (auto split: list.splits)

lemma py_index0_split: "py_index0 (py_split sep s) = ret (takeWhile (\<lambda>c. c \<noteq> sep) s)"
  using py_split_first [of sep s] by (auto simp: py_index0_def)

text \<open>Upper-casing an ASCII letter does not change what it lower-cases to.\<close>

lemma lower_codepoint_upper:
  "lower_codepoint env (if 97 \<le> c \<and> c \<le> 122 then c - 32 else c) = lower_codepoint env c"
  by (auto simp: lower_codepoint_def)

lemma py_lower_upper:
  "py_lower env (map (\<lambda>c. if 97 \<le> c \<and> c \<le> 122 then c - 32 else c) s) = py_lower env s"
  unfolding py_lower_def map_map comp_def lower_codepoint_upper ..

text \<open>Reading a dictionary after \<^verbatim>\<open>update\<close>.\<close>

lemma map_of_dict_set: "map_of (dict_set k v d) k' = (if k' = k then Some v else map_of d k')"
  by (induction d) auto

text \<open>A string strips to the empty string exactly when it is empty or all white space.\<close>

lemma dropWhile_all_iff: "(\<forall>x\<in>set (dropWhile P s). P x) \<longleftrightarrow> dropWhile P s = []"
proof
  assume h: "\<forall>x\<in>set (dropWhile P s). P x"
  show "dropWhile P s = []"
  proof (rule ccontr)
    assume ne: "dropWhile P s \<noteq> []"
    then have "\<not> P (hd (dropWhile P s))" by (rule hd_dropWhile)
    moreover from ne have "hd (dropWhile P s) \<in> set (dropWhile P s)" by (rule hd_in_set)
    ultimately show False using h by blast
  qed
next
  assume "dropWhile P s = []"
  then show "\<forall>x\<in>set (dropWhile P s). P x" by (simp del: dropWhile_eq_Nil_conv)
qed

lemma py_strip_Nil_iff: "py_strip s = [] \<longleftrightarrow> list_all py_isspace s"
proof -
  have "py_strip s = [] \<longleftrightarrow> (\<forall>x\<in>set (dropWhile py_isspace s). py_isspace x)"
    by (simp add: py_strip_def)
  also have "\<dots> \<longleftrightarrow> dropWhile py_isspace s = []" by (rule dropWhile_all_iff)
  also have "\<dots> \<longleftrightarrow> list_all py_isspace s" by (simp add: list_all_iff)
  finally show ?thesis .
qed

text \<open>Every call of \<^verbatim>\<open>extract_topics_and_hashtags\<close> first logs its entry line.\<close>

lemma extract_topics_first_event:
  "\<exists>rest. fst (extract_topics_and_hashtags env text context language) =
     Log INFO (emoji_brain @ U '' Extracting topics from text: '' @ take 100 text @ U ''...'') # rest"
  by (simp add: extract_topics_and_hashtags_def io_simps split: sum.splits)

text \<open>What \<^verbatim>\<open>speech_to_text\<close> logs, sends and returns when the transcription request succeeds.\<close>

lemma speech_to_text_result:
  assumes "audio_transcriptions_create env
             (transcription_request audio_file
                (if language = [] then PNone else PStr (takeWhile (\<lambda>c. c \<noteq> 45) language))) = Inr r"
  shows "speech_to_text env audio_file language =
     ([Log INFO (emoji_microphone @ U '' Processing speech-to-text with language: '' @ language),
       AudioTranscriptionsCreate
         (transcription_request audio_file
            (if language = [] then PNone else PStr (takeWhile (\<lambda>c. c \<noteq> 45) language))),
       Log INFO (emoji_check @ U '' STT completed: '' @ [39] @ take 100 (resp_text r) @ U ''...'' @ [39])],
      Inr [(U ''text'', PStr (resp_text r)),
           (U ''language'', (case resp_language r of None \<Rightarrow> PStr language | Some l \<Rightarrow> l)),
           (U ''duration'', (case resp_duration r of None \<Rightarrow> PFloat (Finite 0) | Some d \<Rightarrow> d)),
           (U ''confidence'', PFloat (Finite 0.95)),
           (U ''words'', PList (case resp_words r of
                        None \<Rightarrow> []
                      | Some ws \<Rightarrow> map (\<lambda>w. PDict [(U ''word'', PStr (span_word w)),
                                                  (U ''start'', PFloat (span_start w)),
                                                  (U ''end'', PFloat (span_end w))]) ws))])"
  using assms
  by (cases "language = []")
     (auto simp: prod_eq_iff speech_to_text_def io_simps py_index0_split)


text \<open>The operations whose whole body is under a catch-all handler that returns a record.\<close>

lemma process_voice_input_for_matching_returns:
  "\<exists>d. snd (process_voice_input_for_matching env audio_data audio_format language) = Inr d"
  unfolding process_voice_input_for_matching_def by (rule try_except_returns) (simp add: io_simps)

lemma moderate_room_conversation_returns:
  "\<exists>d. snd (moderate_room_conversation env audio_data text_input conversation_context
             room_participants moderation_mode) = Inr d"
  unfolding moderate_room_conversation_def by (rule try_except_returns) (simp add: io_simps)

lemma extract_topics_and_hashtags_returns:
  "\<exists>d. snd (extract_topics_and_hashtags env text context language) = Inr d"
  unfolding extract_topics_and_hashtags_def by (rule try_except_returns) (simp add: io_simps)

lemma health_check_returns: "\<exists>d. snd (health_check env) = Inr d"
  unfolding health_check_def by (rule try_except_returns) (simp add: io_simps)

lemma process_voice_for_hashtags_returns:
  "\<exists>d. snd (process_voice_for_hashtags env audio_data audio_format language) = Inr d"
  unfolding process_voice_for_hashtags_def by (rule try_except_returns) (simp add: io_simps)

section \<open>The claims\<close>

text \<open>
  C8. \<^verbatim>\<open>_extract_suggestions\<close> is a function of its text alone (its only other input is
  the runtime's lower-casing table): on \<^verbatim>\<open>"I suggest a new topic"\<close> it returns the suggestion
  tag and the topic tag, on \<^verbatim>\<open>"hello"\<close> the empty list; upper-casing the ASCII letters of the
  text never changes the result; and each tag is present exactly when its keyword (one of the
  fixed set suggest, topic, fact, info) is a substring of the lower-cased text.
\<close>

theorem extract_suggestions_keyword_tests:
  "extract_suggestions env (U ''I suggest a new topic'')
     = [emoji_bulb @ U '' AI provided a suggestion'', emoji_target @ U '' New topic recommendation'']
   \<and> extract_suggestions env (U ''hello'') = []
   \<and> extract_suggestions env (map (\<lambda>c. if 97 \<le> c \<and> c \<le> 122 then c - 32 else c) ai_text)
       = extract_suggestions env ai_text
   \<and> extract_suggestions env ai_text =
       (if sublist (U ''suggest'') (py_lower env ai_text)
        then [emoji_bulb @ U '' AI provided a suggestion''] else [])
       @ (if sublist (U ''topic'') (py_lower env ai_text)
          then [emoji_target @ U '' New topic recommendation''] else [])
       @ (if sublist (U ''fact'') (py_lower env ai_text) \<or> sublist (U ''info'') (py_lower env ai_text)
          then [emoji_magnifier @ U '' Fact checking''] else [])"
proof -
  have l1: "py_lower env (U ''I suggest a new topic'') = U ''i suggest a new topic''"
    by (simp add: py_lower_def lower_codepoint_def U_def)
  have l2: "py_lower env (U ''hello'') = U ''hello''"
    by (simp add: py_lower_def lower_codepoint_def U_def)
  have a: "extract_suggestions env (U ''I suggest a new topic'')
     = [emoji_bulb @ U '' AI provided a suggestion'', emoji_target @ U '' New topic recommendation'']"
    unfolding extract_suggestions_def l1 by (simp add: U_def)
  have b: "extract_suggestions env (U ''hello'') = []"
    unfolding extract_suggestions_def l2 by (simp add: U_def)
  have c: "extract_suggestions env (map (\<lambda>c. if 97 \<le> c \<and> c \<le> 122 then c - 32 else c) ai_text)
       = extract_suggestions env ai_text"
    unfolding extract_suggestions_def py_lower_upper ..
  show ?thesis
    using a b c by (simp add: extract_suggestions_def py_in_sublist)
qed

text \<open>
  C9, as stated, fails: when the synthesis probe raises an exception whose description is
  empty (\<^verbatim>\<open>Exception()\<close>), the record is \<^verbatim>\<open>unhealthy\<close> but its error string is empty.
\<close>

theorem health_check_empty_error_counterexample:
  "audio_speech_create (stub_env (endpoint_down []) (endpoint_down []) (endpoint_down []))
       health_probe_request = Inl (Exn OtherException [])
   \<and> snd (health_check (stub_env (endpoint_down []) (endpoint_down []) (endpoint_down []))) =
       Inr [(U ''status'', PStr (U ''unhealthy'')),
            (U ''service'', PStr (U ''openai_gpt4o_audio'')),
            (U ''error'', PStr []),
            (U ''timestamp'', PStr (U ''2024-05-01T12:00:00''))]"
  by (simp add: health_check_def io_simps stub_env_def endpoint_down_def)

text \<open>
  C9, amended. \<^verbatim>\<open>health_check\<close> never raises; when the probe succeeds the record has status
  \<^verbatim>\<open>healthy\<close>; when the probe raises \<open>e\<close> the record has status \<^verbatim>\<open>unhealthy\<close>, a timestamp, and
  as error string \<^verbatim>\<open>str(e)\<close>, which is non-empty exactly when the exception's description is.
\<close>

theorem health_check_status:
  "(\<exists>d. snd (health_check env) = Inr d)
   \<and> (\<forall>r. audio_speech_create env health_probe_request = Inr r \<longrightarrow>
          snd (health_check env) =
            Inr [(U ''status'', PStr (U ''healthy'')),
                 (U ''service'', PStr (U ''openai_tts'')),
                 (U ''model'', PStr (U ''tts-1'')),
                 (U ''timestamp'', PStr (utcnow_isoformat env))])
   \<and> (\<forall>e. audio_speech_create env health_probe_request = Inl e \<longrightarrow>
          snd (health_check env) =
            Inr [(U ''status'', PStr (U ''unhealthy'')),
                 (U ''service'', PStr (U ''openai_gpt4o_audio'')),
                 (U ''error'', PStr (str_exn e)),
                 (U ''timestamp'', PStr (utcnow_isoformat env))])"
proof -
  have "\<exists>d. snd (health_check env) = Inr d"
    unfolding health_check_def by (rule try_except_returns) (simp add: io_simps)
  then show ?thesis
    by (simp add: health_check_def io_simps)
qed

text \<open>
  The amended C9 at a probe that succeeds and at one that raises \<^verbatim>\<open>Connection error.\<close>
\<close>

theorem health_check_status_witness:
  "snd (health_check (stub_env (endpoint_down []) (speech_replies ''RIFF'') (endpoint_down []))) =
     Inr [(U ''status'', PStr (U ''healthy'')),
          (U ''service'', PStr (U ''openai_tts'')),
          (U ''model'', PStr (U ''tts-1'')),
          (U ''timestamp'', PStr (U ''2024-05-01T12:00:00''))]
   \<and> snd (health_check (stub_env (endpoint_down []) (endpoint_down (U ''Connection error.'')) (endpoint_down []))) =
     Inr [(U ''status'', PStr (U ''unhealthy'')),
          (U ''service'', PStr (U ''openai_gpt4o_audio'')),
          (U ''error'', PStr (U ''Connection error.'')),
          (U ''timestamp'', PStr (U ''2024-05-01T12:00:00''))]"
  using health_check_status [of "stub_env (endpoint_down []) (speech_replies ''RIFF'') (endpoint_down [])"]
    health_check_status [of "stub_env (endpoint_down []) (endpoint_down (U ''Connection error.'')) (endpoint_down [])"]
  by (simp add: stub_env_def endpoint_down_def speech_replies_def)

text \<open>
  C6. When the synthesis request raises, \<^verbatim>\<open>text_to_speech\<close> raises the same exception; when the
  transcription request raises \<open>e\<close>, \<^verbatim>\<open>speech_to_text\<close> raises an exception whose description is
  \<^verbatim>\<open>STT processing failed: \<close> followed by \<^verbatim>\<open>str(e)\<close>. Neither substitutes a result.
\<close>

theorem propagating_operations_raise:
  "(\<forall>e. audio_speech_create env (speech_request text voice speed) = Inl e \<longrightarrow>
        snd (text_to_speech env text voice speed) = Inl e)
   \<and> (\<forall>e. audio_transcriptions_create env
             (transcription_request audio_file
                (if language = [] then PNone else PStr (takeWhile (\<lambda>c. c \<noteq> 45) language))) = Inl e \<longrightarrow>
          snd (speech_to_text env audio_file language) =
            Inl (Exn OtherException (U ''STT processing failed: '' @ str_exn e)))"
  by (simp add: text_to_speech_def speech_to_text_def io_simps py_index0_split)

text \<open>
  C6 at a synthesis endpoint and a transcription endpoint that are down.
\<close>

theorem propagating_operations_raise_witness:
  "snd (text_to_speech (stub_env (endpoint_down []) (endpoint_down (U ''Connection error.'')) (endpoint_down []))
          (U ''Hello'') (U ''alloy'') (Finite 1))
     = Inl (Exn OtherException (U ''Connection error.''))
   \<and> snd (speech_to_text (stub_env (endpoint_down []) (endpoint_down []) (endpoint_down (U ''Request timed out.'')))
          (PBytes ''ABC'') (U ''en-US''))
     = Inl (Exn OtherException (U ''STT processing failed: Request timed out.''))"
  using propagating_operations_raise
      [of "stub_env (endpoint_down []) (endpoint_down (U ''Connection error.'')) (endpoint_down [])"
          "U ''Hello''" "U ''alloy''" "Finite 1"]
    propagating_operations_raise
      [of "stub_env (endpoint_down []) (endpoint_down []) (endpoint_down (U ''Request timed out.''))"
          _ _ _ "PBytes ''ABC''" "U ''en-US''"]
  by (simp add: stub_env_def endpoint_down_def U_def)





text \<open>
  C3. When the chat request succeeds and the reply's text content is absent or empty,
  \<^verbatim>\<open>process_voice_input_for_matching\<close> returns a record with exactly the fields
  \<^verbatim>\<open>audio_response\<close>, \<^verbatim>\<open>text_response\<close>, \<^verbatim>\<open>audio_transcript\<close> and \<^verbatim>\<open>processing_time\<close>, and none
  of \<^verbatim>\<open>understood_text\<close>, \<^verbatim>\<open>extracted_topics\<close>, \<^verbatim>\<open>generated_hashtags\<close>, \<^verbatim>\<open>match_intent\<close>.
\<close>

theorem matching_empty_content_partial_record:
  assumes "chat_completions_create env (matching_request env audio_data audio_format language) = Inr response"
    and "choices response = message # rest"
    and "msg_content message = None \<or> msg_content message = Some []"
  shows "\<exists>d. snd (process_voice_input_for_matching env audio_data audio_format language) = Inr d
           \<and> d = [(U ''audio_response'', (case msg_audio message of None \<Rightarrow> PNone | Some a \<Rightarrow> PStr (reply_data a))),
                  (U ''text_response'', opt_str (msg_content message)),
                  (U ''audio_transcript'', (case msg_audio message of None \<Rightarrow> PNone | Some a \<Rightarrow> PStr (reply_transcript a))),
                  (U ''processing_time'', PStr (utcnow_isoformat env))]
           \<and> has_key d (U ''audio_response'') \<and> has_key d (U ''text_response'')
           \<and> has_key d (U ''audio_transcript'') \<and> has_key d (U ''processing_time'')
           \<and> \<not> has_key d (U ''understood_text'') \<and> \<not> has_key d (U ''extracted_topics'')
           \<and> \<not> has_key d (U ''generated_hashtags'') \<and> \<not> has_key d (U ''match_intent'')"
  using assms
  by (auto simp: process_voice_input_for_matching_def io_simps py_index0_def py_dict_method_def has_key_def)

text \<open>
  C3 at a reply with audio and no text content.
\<close>

theorem matching_empty_content_partial_record_witness:
  "snd (process_voice_input_for_matching
          (stub_env (chat_replies None (Some \<lparr>reply_data = U ''QUJD'', reply_transcript = U ''Got it''\<rparr>))
             (endpoint_down []) (endpoint_down []))
          (PStr (U ''UklGRg=='')) (U ''wav'') (U ''en-US''))
     = Inr [(U ''audio_response'', PStr (U ''QUJD'')),
            (U ''text_response'', PNone),
            (U ''audio_transcript'', PStr (U ''Got it'')),
            (U ''processing_time'', PStr (U ''2024-05-01T12:00:00''))]"
  using matching_empty_content_partial_record
    [of "stub_env (chat_replies None (Some \<lparr>reply_data = U ''QUJD'', reply_transcript = U ''Got it''\<rparr>))
             (endpoint_down []) (endpoint_down [])"
        "PStr (U ''UklGRg=='')" "U ''wav''" "U ''en-US''"
        "\<lparr>choices = [\<lparr>msg_content = None, msg_audio = Some \<lparr>reply_data = U ''QUJD'', reply_transcript = U ''Got it''\<rparr>\<rparr>]\<rparr>"
        "\<lparr>msg_content = None, msg_audio = Some \<lparr>reply_data = U ''QUJD'', reply_transcript = U ''Got it''\<rparr>\<rparr>"
        "[]"]
  by (simp add: stub_env_def chat_replies_def opt_str_def)

text \<open>
  C10 says that a reply with well-formed JSON text and an audio payload has that payload in
  \<^verbatim>\<open>audio_response\<close>. The code attaches the audio after parsing, and after its parse fallback,
  but misses JSON that is not an object: for the reply text \<^verbatim>\<open>42\<close>, \<^verbatim>\<open>json.loads\<close> gives an
  \<^verbatim>\<open>int\<close>, \<^verbatim>\<open>result_data.update\<close> raises \<^verbatim>\<open>AttributeError\<close>, and the catch-all handler returns the
  placeholder record, whose \<^verbatim>\<open>audio_response\<close> is \<^verbatim>\<open>None\<close> although the reply carried audio.
\<close>

theorem matching_non_object_json_drops_audio:
  "json_loads (stub_env (chat_replies (Some (U ''42'')) (Some \<lparr>reply_data = U ''QUJD'', reply_transcript = U ''Got it''\<rparr>))
                 (endpoint_down []) (endpoint_down [])) (U ''42'') = Inr (PInt 42)
   \<and> snd (process_voice_input_for_matching
          (stub_env (chat_replies (Some (U ''42'')) (Some \<lparr>reply_data = U ''QUJD'', reply_transcript = U ''Got it''\<rparr>))
             (endpoint_down []) (endpoint_down []))
          (PStr (U ''UklGRg=='')) (U ''wav'') (U ''en-US''))
     = Inr [(U ''understood_text'', PStr (U ''Sorry, I didn't understand what you said'')),
            (U ''extracted_topics'', PList [PStr (U ''General topic'')]),
            (U ''generated_hashtags'', PList [PStr (U ''#general'')]),
            (U ''match_intent'', PStr (U ''General chat'')),
            (U ''audio_response'', PNone),
            (U ''text_response'', PStr (U ''Error processing voice input: '' @ quoted (U ''int'')
                                       @ U '' object has no attribute '' @ quoted (U ''update''))),
            (U ''error'', PStr (quoted (U ''int'') @ U '' object has no attribute '' @ quoted (U ''update'')))]"
  by (simp add: process_voice_input_for_matching_def io_simps py_index0_def py_dict_method_def
      stub_env_def chat_replies_def stub_json_loads_def)

text \<open>
  Where the round trip of C10 does hold: for every reply whose text parses to a JSON object
  and which carries an audio payload, the record returned by
  \<^verbatim>\<open>process_voice_input_for_matching\<close> has exactly that payload, unchanged, in its
  \<^verbatim>\<open>audio_response\<close> field.
\<close>

theorem matching_audio_roundtrip:
  assumes "chat_completions_create env (matching_request env audio_data audio_format language) = Inr response"
    and "choices response = message # rest"
    and "msg_audio message = Some a"
    and "msg_content message = Some content"
    and "json_loads env content = Inr (PDict obj)"
  shows "\<exists>d. snd (process_voice_input_for_matching env audio_data audio_format language) = Inr d
           \<and> map_of d (U ''audio_response'') = Some (PStr (reply_data a))"
  using assms
  by (auto simp: process_voice_input_for_matching_def io_simps py_index0_def py_dict_method_def
      map_of_dict_set)

text \<open>
  The round trip at a reply with a JSON object and the audio payload \<^verbatim>\<open>QUJD\<close>.
\<close>

theorem matching_audio_roundtrip_witness:
  "\<exists>d. snd (process_voice_input_for_matching
          (stub_env (chat_replies (Some (U ''{\"understood_text\": \"hi\"}''))
                       (Some \<lparr>reply_data = U ''QUJD'', reply_transcript = U ''Got it''\<rparr>))
             (endpoint_down []) (endpoint_down []))
          (PStr (U ''UklGRg=='')) (U ''wav'') (U ''en-US'')) = Inr d
      \<and> map_of d (U ''audio_response'') = Some (PStr (U ''QUJD''))"
  using matching_audio_roundtrip
    [of "stub_env (chat_replies (Some (U ''{\"understood_text\": \"hi\"}''))
                       (Some \<lparr>reply_data = U ''QUJD'', reply_transcript = U ''Got it''\<rparr>))
             (endpoint_down []) (endpoint_down [])"
        "PStr (U ''UklGRg=='')" "U ''wav''" "U ''en-US''"
        "\<lparr>choices = [\<lparr>msg_content = Some (U ''{\"understood_text\": \"hi\"}''),
                       msg_audio = Some \<lparr>reply_data = U ''QUJD'', reply_transcript = U ''Got it''\<rparr>\<rparr>]\<rparr>"
        "\<lparr>msg_content = Some (U ''{\"understood_text\": \"hi\"}''),
          msg_audio = Some \<lparr>reply_data = U ''QUJD'', reply_transcript = U ''Got it''\<rparr>\<rparr>"
        "[]" "\<lparr>reply_data = U ''QUJD'', reply_transcript = U ''Got it''\<rparr>"
        "U ''{\"understood_text\": \"hi\"}''" "[(U ''understood_text'', PStr (U ''hi''))]"]
  by (simp add: stub_env_def chat_replies_def stub_json_loads_def)

text \<open>
  C5, as stated, fails: the reply text \<^verbatim>\<open>{"main_topics": ["AI"], "score": NaN}\<close> is not valid
  JSON (\<^verbatim>\<open>NaN\<close> is no JSON value), but \<^verbatim>\<open>json.loads\<close> accepts it, and
  \<^verbatim>\<open>extract_topics_and_hashtags\<close> returns the parsed dictionary, not the parse-failure
  fallback.
\<close>

theorem extract_topics_nan_reply_counterexample:
  "json_loads
       (stub_env (chat_replies (Some (U ''{\"main_topics\": [\"AI\"], \"score\": NaN}'')) None)
          (endpoint_down []) (endpoint_down []))
       (U ''{\"main_topics\": [\"AI\"], \"score\": NaN}'')
     = Inr (PDict [(U ''main_topics'', PList [PStr (U ''AI'')]), (U ''score'', PFloat NaN)])
   \<and> snd (extract_topics_and_hashtags
          (stub_env (chat_replies (Some (U ''{\"main_topics\": [\"AI\"], \"score\": NaN}'')) None)
             (endpoint_down []) (endpoint_down []))
          (U ''I love AI'') None (U ''en-US''))
     = Inr [(U ''main_topics'', PList [PStr (U ''AI'')]), (U ''score'', PFloat NaN)]"
  by (simp add: extract_topics_and_hashtags_def context_info_of_def io_simps py_index0_def
      py_dict_method_def stub_env_def chat_replies_def stub_json_loads_def)

text \<open>
  C5, amended. When the chat request succeeds and \<^verbatim>\<open>json.loads\<close> rejects the reply text with
  \<^verbatim>\<open>JSONDecodeError\<close>, \<^verbatim>\<open>extract_topics_and_hashtags\<close> returns the parse-failure record: topics
  \<^verbatim>\<open>general\<close>, \<^verbatim>\<open>conversation\<close>, category \<^verbatim>\<open>other\<close>, sentiment \<^verbatim>\<open>neutral\<close>, confidence 0.5 and the
  reply text under \<^verbatim>\<open>raw_response\<close>. When the request itself raises, it returns a different
  record: confidence 0.1, an \<^verbatim>\<open>error\<close> field and no \<^verbatim>\<open>raw_response\<close>. When \<^verbatim>\<open>json.loads\<close>
  accepts the text and returns a dictionary, that dictionary is the result as it is.
\<close>

theorem extract_topics_parse_failure_fallback:
  "(\<forall>ci response message rest content e.
       snd (context_info_of env context) = Inr ci
       \<and> chat_completions_create env (topics_request text ci language) = Inr response
       \<and> choices response = message # rest
       \<and> msg_content message = Some content
       \<and> json_loads env content = Inl e \<and> exn_class_of e = JSONDecodeError \<longrightarrow>
       snd (extract_topics_and_hashtags env text context language) =
         Inr [(U ''main_topics'', PList [PStr (U ''general''), PStr (U ''conversation'')]),
              (U ''hashtags'', PList [PStr (U ''#chat''), PStr (U ''#social''), PStr (U ''#conversation'')]),
              (U ''category'', PStr (U ''other'')),
              (U ''sentiment'', PStr (U ''neutral'')),
              (U ''conversation_style'', PStr (U ''casual'')),
              (U ''confidence'', PFloat (Finite 0.5)),
              (U ''summary'', PStr (U ''General conversation topic'')),
              (U ''raw_response'', PStr content)])
   \<and> (\<forall>ci e.
       snd (context_info_of env context) = Inr ci
       \<and> chat_completions_create env (topics_request text ci language) = Inl e \<longrightarrow>
       snd (extract_topics_and_hashtags env text context language) =
         Inr [(U ''main_topics'', PList [PStr (U ''general'')]),
              (U ''hashtags'', PList [PStr (U ''#general''), PStr (U ''#chat'')]),
              (U ''category'', PStr (U ''other'')),
              (U ''sentiment'', PStr (U ''neutral'')),
              (U ''conversation_style'', PStr (U ''casual'')),
              (U ''confidence'', PFloat (Finite 0.1)),
              (U ''summary'', PStr (U ''Could not analyze topics'')),
              (U ''error'', PStr (str_exn e))])
   \<and> (\<forall>ci response message rest content obj.
       snd (context_info_of env context) = Inr ci
       \<and> chat_completions_create env (topics_request text ci language) = Inr response
       \<and> choices response = message # rest
       \<and> msg_content message = Some content
       \<and> json_loads env content = Inr (PDict obj) \<longrightarrow>
       snd (extract_topics_and_hashtags env text context language) = Inr obj)"
  by (auto simp: extract_topics_and_hashtags_def io_simps py_index0_def opt_str_def py_dict_method_def)

text \<open>
  The amended C5 at a reply that is plain prose, at a chat endpoint that is down, and at a
  reply that \<^verbatim>\<open>json.loads\<close> parses to a dictionary.
\<close>

theorem extract_topics_parse_failure_fallback_witness:
  "snd (extract_topics_and_hashtags
          (stub_env (chat_replies (Some (U ''I think this is about cooking.'')) None)
             (endpoint_down []) (endpoint_down []))
          (U ''I love pasta'') None (U ''en-US''))
     = Inr [(U ''main_topics'', PList [PStr (U ''general''), PStr (U ''conversation'')]),
            (U ''hashtags'', PList [PStr (U ''#chat''), PStr (U ''#social''), PStr (U ''#conversation'')]),
            (U ''category'', PStr (U ''other'')),
            (U ''sentiment'', PStr (U ''neutral'')),
            (U ''conversation_style'', PStr (U ''casual'')),
            (U ''confidence'', PFloat (Finite 0.5)),
            (U ''summary'', PStr (U ''General conversation topic'')),
            (U ''raw_response'', PStr (U ''I think this is about cooking.''))]
   \<and> snd (extract_topics_and_hashtags
          (stub_env (endpoint_down (U ''Connection error.'')) (endpoint_down []) (endpoint_down []))
          (U ''I love pasta'') None (U ''en-US''))
     = Inr [(U ''main_topics'', PList [PStr (U ''general'')]),
            (U ''hashtags'', PList [PStr (U ''#general''), PStr (U ''#chat'')]),
            (U ''category'', PStr (U ''other'')),
            (U ''sentiment'', PStr (U ''neutral'')),
            (U ''conversation_style'', PStr (U ''casual'')),
            (U ''confidence'', PFloat (Finite 0.1)),
            (U ''summary'', PStr (U ''Could not analyze topics'')),
            (U ''error'', PStr (U ''Connection error.''))]
   \<and> snd (extract_topics_and_hashtags
          (stub_env (chat_replies (Some (U ''{\"main_topics\": [\"AI\"], \"score\": NaN}'')) None)
             (endpoint_down []) (endpoint_down []))
          (U ''I love AI'') None (U ''en-US''))
     = Inr [(U ''main_topics'', PList [PStr (U ''AI'')]), (U ''score'', PFloat NaN)]"
  using extract_topics_parse_failure_fallback
      [of "stub_env (chat_replies (Some (U ''I think this is about cooking.'')) None)
             (endpoint_down []) (endpoint_down [])" None "U ''I love pasta''" "U ''en-US''"]
    extract_topics_parse_failure_fallback
      [of "stub_env (endpoint_down (U ''Connection error.'')) (endpoint_down []) (endpoint_down [])"
          None "U ''I love pasta''" "U ''en-US''"]
    extract_topics_parse_failure_fallback
      [of "stub_env (chat_replies (Some (U ''{\"main_topics\": [\"AI\"], \"score\": NaN}'')) None)
             (endpoint_down []) (endpoint_down [])" None "U ''I love AI''" "U ''en-US''"]
  by (simp add: stub_env_def chat_replies_def endpoint_down_def stub_json_loads_def context_info_of_def)

text \<open>
  C4. When the transcription is empty or all white space, \<^verbatim>\<open>process_voice_for_hashtags\<close>
  returns the record with empty transcription, no topics, no hashtags and the error
  \<^verbatim>\<open>No speech detected in audio\<close>. Its events are its own entry line followed by those of
  \<^verbatim>\<open>speech_to_text\<close> and nothing else: no chat request is sent and the entry line that every
  call of \<^verbatim>\<open>extract_topics_and_hashtags\<close> logs first does not occur.
\<close>

theorem no_speech_short_circuit:
  assumes "audio_transcriptions_create env
             (transcription_request audio_data
                (if language = [] then PNone else PStr (takeWhile (\<lambda>c. c \<noteq> 45) language))) = Inr r"
    and "list_all py_isspace (resp_text r)"
  shows "snd (process_voice_for_hashtags env audio_data audio_format language) =
           Inr [(U ''transcription'', PStr []),
                (U ''main_topics'', PList []),
                (U ''hashtags'', PList []),
                (U ''error'', PStr (U ''No speech detected in audio''))]
         \<and> fst (process_voice_for_hashtags env audio_data audio_format language) =
             Log INFO (emoji_microphone @ U '' Processing voice input for hashtag extraction...'')
             # fst (speech_to_text env audio_data language)
         \<and> (\<forall>kwargs. ChatCompletionsCreate kwargs
                \<notin> set (fst (process_voice_for_hashtags env audio_data audio_format language)))
         \<and> (\<forall>msg. Log INFO (emoji_brain @ msg)
                \<notin> set (fst (process_voice_for_hashtags env audio_data audio_format language)))
         \<and> (\<forall>text context lang. \<exists>rest.
               fst (extract_topics_and_hashtags env text context lang) =
                 Log INFO (emoji_brain @ U '' Extracting topics from text: '' @ take 100 text @ U ''...'')
                 # rest)"
proof -
  have strip: "py_strip (resp_text r) = []"
    using assms(2) by (simp add: py_strip_Nil_iff)
  have run: "process_voice_for_hashtags env audio_data audio_format language =
     (Log INFO (emoji_microphone @ U '' Processing voice input for hashtag extraction...'')
        # fst (speech_to_text env audio_data language),
      Inr [(U ''transcription'', PStr []),
           (U ''main_topics'', PList []),
           (U ''hashtags'', PList []),
           (U ''error'', PStr (U ''No speech detected in audio''))])"
    unfolding process_voice_for_hashtags_def speech_to_text_result [OF assms(1)]
    by (simp add: prod_eq_iff io_simps py_getitem_def strip)
  have no_brain: "\<forall>msg. Log INFO (emoji_brain @ msg)
        \<notin> set (fst (process_voice_for_hashtags env audio_data audio_format language))"
    unfolding run speech_to_text_result [OF assms(1)]
    by (simp add: emoji_brain_def emoji_microphone_def emoji_check_def)
  have no_chat: "\<forall>kwargs. ChatCompletionsCreate kwargs
        \<notin> set (fst (process_voice_for_hashtags env audio_data audio_format language))"
    unfolding run speech_to_text_result [OF assms(1)] by simp
  show ?thesis
    using run no_brain no_chat extract_topics_first_event by simp
qed

text \<open>
  C4 at a transcription of two spaces.
\<close>

theorem no_speech_short_circuit_witness:
  "snd (process_voice_for_hashtags
          (stub_env (chat_replies (Some (U ''{}'')) None) (endpoint_down [])
             (transcription_replies (U ''  '') None))
          (PBytes ''ABC'') (U ''mp3'') (U ''en-US'')) =
     Inr [(U ''transcription'', PStr []),
          (U ''main_topics'', PList []),
          (U ''hashtags'', PList []),
          (U ''error'', PStr (U ''No speech detected in audio''))]
   \<and> (\<forall>kwargs. ChatCompletionsCreate kwargs
          \<notin> set (fst (process_voice_for_hashtags
                 (stub_env (chat_replies (Some (U ''{}'')) None) (endpoint_down [])
                    (transcription_replies (U ''  '') None))
                 (PBytes ''ABC'') (U ''mp3'') (U ''en-US''))))"
proof -
  have sp: "list_all py_isspace
      (resp_text \<lparr>resp_text = U ''  '', resp_language = None, resp_duration = Some (PFloat (Finite 1.5)), resp_words = None\<rparr>)"
    by (simp add: U_def py_isspace_def)
  have req: "audio_transcriptions_create
        (stub_env (chat_replies (Some (U ''{}'')) None) (endpoint_down [])
           (transcription_replies (U ''  '') None))
        (transcription_request (PBytes ''ABC'')
           (if U ''en-US'' = [] then PNone else PStr (takeWhile (\<lambda>c. c \<noteq> 45) (U ''en-US''))))
      = Inr \<lparr>resp_text = U ''  '', resp_language = None, resp_duration = Some (PFloat (Finite 1.5)), resp_words = None\<rparr>"
    by (simp add: stub_env_def transcription_replies_def)
  from no_speech_short_circuit [OF req sp, of "U ''mp3''"] show ?thesis
    by blast
qed

text \<open>
  C2, as stated, fails: with the chat endpoint down, \<^verbatim>\<open>extract_topics_and_hashtags\<close> returns
  its fallback record carrying an \<^verbatim>\<open>error\<close> field, and \<^verbatim>\<open>process_voice_for_hashtags\<close> returns
  the merged record, with the transcription, the fallback topics and hashtags, and no
  \<^verbatim>\<open>error\<close> field.
\<close>

theorem voice_for_hashtags_topic_error_counterexample:
  "snd (extract_topics_and_hashtags
          (stub_env (endpoint_down (U ''Connection error.'')) (endpoint_down [])
             (transcription_replies (U ''hello'') None))
          (U ''hello'')
          (Some [(U ''source'', PStr (U ''voice_input'')),
                 (U ''language'', PStr (U ''en-US'')),
                 (U ''audio_format'', PStr (U ''mp3''))])
          (U ''en-US'')) =
     Inr [(U ''main_topics'', PList [PStr (U ''general'')]),
          (U ''hashtags'', PList [PStr (U ''#general''), PStr (U ''#chat'')]),
          (U ''category'', PStr (U ''other'')),
          (U ''sentiment'', PStr (U ''neutral'')),
          (U ''conversation_style'', PStr (U ''casual'')),
          (U ''confidence'', PFloat (Finite 0.1)),
          (U ''summary'', PStr (U ''Could not analyze topics'')),
          (U ''error'', PStr (U ''Connection error.''))]
   \<and> snd (process_voice_for_hashtags
          (stub_env (endpoint_down (U ''Connection error.'')) (endpoint_down [])
             (transcription_replies (U ''hello'') None))
          (PBytes ''ABC'') (U ''mp3'') (U ''en-US'')) =
     Inr [(U ''transcription'', PStr (U ''hello'')),
          (U ''language'', PStr (U ''en-US'')),
          (U ''duration'', PFloat (Finite 1.5)),
          (U ''confidence'', PFloat (Finite 0.95)),
          (U ''main_topics'', PList [PStr (U ''general'')]),
          (U ''hashtags'', PList [PStr (U ''#general''), PStr (U ''#chat'')]),
          (U ''category'', PStr (U ''other'')),
          (U ''sentiment'', PStr (U ''neutral'')),
          (U ''conversation_style'', PStr (U ''casual'')),
          (U ''summary'', PStr (U ''Could not analyze topics''))]"
proof -
  have strip: "py_strip (U ''hello'') = U ''hello''"
    by (simp add: py_strip_def py_isspace_def U_def)
  have topics: "snd (extract_topics_and_hashtags
          (stub_env (endpoint_down (U ''Connection error.'')) (endpoint_down [])
             (transcription_replies (U ''hello'') None))
          (U ''hello'')
          (Some [(U ''source'', PStr (U ''voice_input'')),
                 (U ''language'', PStr (U ''en-US'')),
                 (U ''audio_format'', PStr (U ''mp3''))])
          (U ''en-US'')) =
     Inr [(U ''main_topics'', PList [PStr (U ''general'')]),
          (U ''hashtags'', PList [PStr (U ''#general''), PStr (U ''#chat'')]),
          (U ''category'', PStr (U ''other'')),
          (U ''sentiment'', PStr (U ''neutral'')),
          (U ''conversation_style'', PStr (U ''casual'')),
          (U ''confidence'', PFloat (Finite 0.1)),
          (U ''summary'', PStr (U ''Could not analyze topics'')),
          (U ''error'', PStr (U ''Connection error.''))]"
    by (simp add: extract_topics_and_hashtags_def context_info_of_def io_simps stub_env_def
        endpoint_down_def stub_json_dumps_def)
  have req: "audio_transcriptions_create
        (stub_env (endpoint_down (U ''Connection error.'')) (endpoint_down [])
           (transcription_replies (U ''hello'') None))
        (transcription_request (PBytes ''ABC'')
           (if U ''en-US'' = [] then PNone else PStr (takeWhile (\<lambda>c. c \<noteq> 45) (U ''en-US''))))
      = Inr \<lparr>resp_text = U ''hello'', resp_language = None, resp_duration = Some (PFloat (Finite 1.5)), resp_words = None\<rparr>"
    by (simp add: stub_env_def transcription_replies_def)
  have "snd (process_voice_for_hashtags
          (stub_env (endpoint_down (U ''Connection error.'')) (endpoint_down [])
             (transcription_replies (U ''hello'') None))
          (PBytes ''ABC'') (U ''mp3'') (U ''en-US'')) =
     Inr [(U ''transcription'', PStr (U ''hello'')),
          (U ''language'', PStr (U ''en-US'')),
          (U ''duration'', PFloat (Finite 1.5)),
          (U ''confidence'', PFloat (Finite 0.95)),
          (U ''main_topics'', PList [PStr (U ''general'')]),
          (U ''hashtags'', PList [PStr (U ''#general''), PStr (U ''#chat'')]),
          (U ''category'', PStr (U ''other'')),
          (U ''sentiment'', PStr (U ''neutral'')),
          (U ''conversation_style'', PStr (U ''casual'')),
          (U ''summary'', PStr (U ''Could not analyze topics''))]"
    unfolding process_voice_for_hashtags_def speech_to_text_result [OF req]
    by (simp add: io_simps py_getitem_def py_len_def dict_get_def strip topics)
  with topics show ?thesis by blast
qed

text \<open>
  C2, amended. \<^verbatim>\<open>process_voice_for_hashtags\<close> never raises, and
  \<^verbatim>\<open>extract_topics_and_hashtags\<close> never raises. If \<^verbatim>\<open>speech_to_text\<close> raises, the record has
  empty transcription, no topics, no hashtags and the raised description as error. If the
  topic stage returns a record carrying an \<^verbatim>\<open>error\<close> field, that error is not surfaced. When
  \<^verbatim>\<open>len()\<close> applies to that record's \<^verbatim>\<open>hashtags\<close> value (a missing key counts as \<^verbatim>\<open>[]\<close>), the
  result is the merged record, with the transcription and that record's topics and hashtags,
  and no \<^verbatim>\<open>error\<close> field; so it is for the fallback record of a failed chat request, whose
  hashtags are a list. Only when \<^verbatim>\<open>len()\<close> of the \<^verbatim>\<open>hashtags\<close> value raises (\<^verbatim>\<open>None\<close>, a number, a
  boolean) is the result the empty record, with that exception's description as error.
\<close>

theorem voice_for_hashtags_failure_handling:
  "(\<exists>d. snd (process_voice_for_hashtags env audio_data audio_format language) = Inr d)
   \<and> (\<forall>text context lang. \<exists>topic_result.
          snd (extract_topics_and_hashtags env text context lang) = Inr topic_result)
   \<and> (\<forall>e. snd (speech_to_text env audio_data language) = Inl e \<longrightarrow>
          snd (process_voice_for_hashtags env audio_data audio_format language) =
            Inr [(U ''transcription'', PStr []),
                 (U ''main_topics'', PList []),
                 (U ''hashtags'', PList []),
                 (U ''error'', PStr (str_exn e))])
   \<and> (\<forall>r topic_result n.
          audio_transcriptions_create env
             (transcription_request audio_data
                (if language = [] then PNone else PStr (takeWhile (\<lambda>c. c \<noteq> 45) language))) = Inr r
          \<and> py_strip (resp_text r) \<noteq> []
          \<and> snd (extract_topics_and_hashtags env (resp_text r)
                   (Some [(U ''source'', PStr (U ''voice_input'')),
                          (U ''language'', PStr language),
                          (U ''audio_format'', PStr audio_format)])
                   (U ''en-US'')) = Inr topic_result
          \<and> has_key topic_result (U ''error'')
          \<and> snd (py_len (dict_get topic_result (U ''hashtags'') (PList []))) = Inr n \<longrightarrow>
          (\<exists>d. snd (process_voice_for_hashtags env audio_data audio_format language) = Inr d
             \<and> d = [(U ''transcription'', PStr (resp_text r)),
                    (U ''language'', (case resp_language r of None \<Rightarrow> PStr language | Some l \<Rightarrow> l)),
                    (U ''duration'', (case resp_duration r of None \<Rightarrow> PFloat (Finite 0) | Some d \<Rightarrow> d)),
                    (U ''confidence'', PFloat (Finite 0.95)),
                    (U ''main_topics'', dict_get topic_result (U ''main_topics'') (PList [])),
                    (U ''hashtags'', dict_get topic_result (U ''hashtags'') (PList [])),
                    (U ''category'', dict_get topic_result (U ''category'') (PStr (U ''other''))),
                    (U ''sentiment'', dict_get topic_result (U ''sentiment'') (PStr (U ''neutral''))),
                    (U ''conversation_style'', dict_get topic_result (U ''conversation_style'') (PStr (U ''casual''))),
                    (U ''summary'', dict_get topic_result (U ''summary'') (PStr (take 100 (resp_text r))))]
             \<and> \<not> has_key d (U ''error'')))
   \<and> (\<forall>r topic_result e.
          audio_transcriptions_create env
             (transcription_request audio_data
                (if language = [] then PNone else PStr (takeWhile (\<lambda>c. c \<noteq> 45) language))) = Inr r
          \<and> py_strip (resp_text r) \<noteq> []
          \<and> snd (extract_topics_and_hashtags env (resp_text r)
                   (Some [(U ''source'', PStr (U ''voice_input'')),
                          (U ''language'', PStr language),
                          (U ''audio_format'', PStr audio_format)])
                   (U ''en-US'')) = Inr topic_result
          \<and> has_key topic_result (U ''error'')
          \<and> snd (py_len (dict_get topic_result (U ''hashtags'') (PList []))) = Inl e \<longrightarrow>
          snd (process_voice_for_hashtags env audio_data audio_format language) =
            Inr [(U ''transcription'', PStr []),
                 (U ''main_topics'', PList []),
                 (U ''hashtags'', PList []),
                 (U ''error'', PStr (str_exn e))])
   \<and> (\<forall>r ci e.
          audio_transcriptions_create env
             (transcription_request audio_data
                (if language = [] then PNone else PStr (takeWhile (\<lambda>c. c \<noteq> 45) language))) = Inr r
          \<and> py_strip (resp_text r) \<noteq> []
          \<and> snd (context_info_of env
                   (Some [(U ''source'', PStr (U ''voice_input'')),
                          (U ''language'', PStr language),
                          (U ''audio_format'', PStr audio_format)])) = Inr ci
          \<and> chat_completions_create env (topics_request (resp_text r) ci (U ''en-US'')) = Inl e \<longrightarrow>
          snd (process_voice_for_hashtags env audio_data audio_format language) =
            Inr [(U ''transcription'', PStr (resp_text r)),
                 (U ''language'', (case resp_language r of None \<Rightarrow> PStr language | Some l \<Rightarrow> l)),
                 (U ''duration'', (case resp_duration r of None \<Rightarrow> PFloat (Finite 0) | Some d \<Rightarrow> d)),
                 (U ''confidence'', PFloat (Finite 0.95)),
                 (U ''main_topics'', PList [PStr (U ''general'')]),
                 (U ''hashtags'', PList [PStr (U ''#general''), PStr (U ''#chat'')]),
                 (U ''category'', PStr (U ''other'')),
                 (U ''sentiment'', PStr (U ''neutral'')),
                 (U ''conversation_style'', PStr (U ''casual'')),
                 (U ''summary'', PStr (U ''Could not analyze topics''))])"
proof -
  have stt_fails: "\<forall>e. snd (speech_to_text env audio_data language) = Inl e \<longrightarrow>
          snd (process_voice_for_hashtags env audio_data audio_format language) =
            Inr [(U ''transcription'', PStr []),
                 (U ''main_topics'', PList []),
                 (U ''hashtags'', PList []),
                 (U ''error'', PStr (str_exn e))]"
    by (simp add: process_voice_for_hashtags_def io_simps)
  have merged: "\<exists>d. snd (process_voice_for_hashtags env audio_data audio_format language) = Inr d
             \<and> d = [(U ''transcription'', PStr (resp_text r)),
                    (U ''language'', (case resp_language r of None \<Rightarrow> PStr language | Some l \<Rightarrow> l)),
                    (U ''duration'', (case resp_duration r of None \<Rightarrow> PFloat (Finite 0) | Some d \<Rightarrow> d)),
                    (U ''confidence'', PFloat (Finite 0.95)),
                    (U ''main_topics'', dict_get topic_result (U ''main_topics'') (PList [])),
                    (U ''hashtags'', dict_get topic_result (U ''hashtags'') (PList [])),
                    (U ''category'', dict_get topic_result (U ''category'') (PStr (U ''other''))),
                    (U ''sentiment'', dict_get topic_result (U ''sentiment'') (PStr (U ''neutral''))),
                    (U ''conversation_style'', dict_get topic_result (U ''conversation_style'') (PStr (U ''casual''))),
                    (U ''summary'', dict_get topic_result (U ''summary'') (PStr (take 100 (resp_text r))))]
             \<and> \<not> has_key d (U ''error'')"
    if req: "audio_transcriptions_create env
             (transcription_request audio_data
                (if language = [] then PNone else PStr (takeWhile (\<lambda>c. c \<noteq> 45) language))) = Inr r"
      and strip: "py_strip (resp_text r) \<noteq> []"
      and topics: "snd (extract_topics_and_hashtags env (resp_text r)
                   (Some [(U ''source'', PStr (U ''voice_input'')),
                          (U ''language'', PStr language),
                          (U ''audio_format'', PStr audio_format)])
                   (U ''en-US'')) = Inr topic_result"
      and len: "snd (py_len (dict_get topic_result (U ''hashtags'') (PList []))) = Inr n"
    for r topic_result n
    unfolding process_voice_for_hashtags_def speech_to_text_result [OF req]
    by (simp add: io_simps py_getitem_def has_key_def strip topics len)
  have unsized: "snd (process_voice_for_hashtags env audio_data audio_format language) =
            Inr [(U ''transcription'', PStr []),
                 (U ''main_topics'', PList []),
                 (U ''hashtags'', PList []),
                 (U ''error'', PStr (str_exn e))]"
    if req: "audio_transcriptions_create env
             (transcription_request audio_data
                (if language = [] then PNone else PStr (takeWhile (\<lambda>c. c \<noteq> 45) language))) = Inr r"
      and strip: "py_strip (resp_text r) \<noteq> []"
      and topics: "snd (extract_topics_and_hashtags env (resp_text r)
                   (Some [(U ''source'', PStr (U ''voice_input'')),
                          (U ''language'', PStr language),
                          (U ''audio_format'', PStr audio_format)])
                   (U ''en-US'')) = Inr topic_result"
      and len: "snd (py_len (dict_get topic_result (U ''hashtags'') (PList []))) = Inl e"
    for r topic_result e
    unfolding process_voice_for_hashtags_def speech_to_text_result [OF req]
    by (simp add: io_simps py_getitem_def strip topics len)
  have chat_down: "\<forall>r ci e.
          audio_transcriptions_create env
             (transcription_request audio_data
                (if language = [] then PNone else PStr (takeWhile (\<lambda>c. c \<noteq> 45) language))) = Inr r
          \<and> py_strip (resp_text r) \<noteq> []
          \<and> snd (context_info_of env
                   (Some [(U ''source'', PStr (U ''voice_input'')),
                          (U ''language'', PStr language),
                          (U ''audio_format'', PStr audio_format)])) = Inr ci
          \<and> chat_completions_create env (topics_request (resp_text r) ci (U ''en-US'')) = Inl e \<longrightarrow>
          snd (process_voice_for_hashtags env audio_data audio_format language) =
            Inr [(U ''transcription'', PStr (resp_text r)),
                 (U ''language'', (case resp_language r of None \<Rightarrow> PStr language | Some l \<Rightarrow> l)),
                 (U ''duration'', (case resp_duration r of None \<Rightarrow> PFloat (Finite 0) | Some d \<Rightarrow> d)),
                 (U ''confidence'', PFloat (Finite 0.95)),
                 (U ''main_topics'', PList [PStr (U ''general'')]),
                 (U ''hashtags'', PList [PStr (U ''#general''), PStr (U ''#chat'')]),
                 (U ''category'', PStr (U ''other'')),
                 (U ''sentiment'', PStr (U ''neutral'')),
                 (U ''conversation_style'', PStr (U ''casual'')),
                 (U ''summary'', PStr (U ''Could not analyze topics''))]"
  proof (intro allI impI, elim conjE)
    fix r ci e
    assume req: "audio_transcriptions_create env
             (transcription_request audio_data
                (if language = [] then PNone else PStr (takeWhile (\<lambda>c. c \<noteq> 45) language))) = Inr r"
      and strip: "py_strip (resp_text r) \<noteq> []"
      and ctx: "snd (context_info_of env
                   (Some [(U ''source'', PStr (U ''voice_input'')),
                          (U ''language'', PStr language),
                          (U ''audio_format'', PStr audio_format)])) = Inr ci"
      and down: "chat_completions_create env (topics_request (resp_text r) ci (U ''en-US'')) = Inl e"
    have topics: "snd (extract_topics_and_hashtags env (resp_text r)
                   (Some [(U ''source'', PStr (U ''voice_input'')),
                          (U ''language'', PStr language),
                          (U ''audio_format'', PStr audio_format)])
                   (U ''en-US'')) =
        Inr [(U ''main_topics'', PList [PStr (U ''general'')]),
             (U ''hashtags'', PList [PStr (U ''#general''), PStr (U ''#chat'')]),
             (U ''category'', PStr (U ''other'')),
             (U ''sentiment'', PStr (U ''neutral'')),
             (U ''conversation_style'', PStr (U ''casual'')),
             (U ''confidence'', PFloat (Finite 0.1)),
             (U ''summary'', PStr (U ''Could not analyze topics'')),
             (U ''error'', PStr (str_exn e))]"
      using ctx down by (simp add: extract_topics_and_hashtags_def io_simps)
    show "snd (process_voice_for_hashtags env audio_data audio_format language) =
            Inr [(U ''transcription'', PStr (resp_text r)),
                 (U ''language'', (case resp_language r of None \<Rightarrow> PStr language | Some l \<Rightarrow> l)),
                 (U ''duration'', (case resp_duration r of None \<Rightarrow> PFloat (Finite 0) | Some d \<Rightarrow> d)),
                 (U ''confidence'', PFloat (Finite 0.95)),
                 (U ''main_topics'', PList [PStr (U ''general'')]),
                 (U ''hashtags'', PList [PStr (U ''#general''), PStr (U ''#chat'')]),
                 (U ''category'', PStr (U ''other'')),
                 (U ''sentiment'', PStr (U ''neutral'')),
                 (U ''conversation_style'', PStr (U ''casual'')),
                 (U ''summary'', PStr (U ''Could not analyze topics''))]"
      unfolding process_voice_for_hashtags_def speech_to_text_result [OF req]
      by (simp add: io_simps py_getitem_def py_len_def dict_get_def strip topics)
  qed
  show ?thesis
    using process_voice_for_hashtags_returns extract_topics_and_hashtags_returns stt_fails
      merged unsized chat_down
    by blast
qed

text \<open>
  The amended C2 at a transcription endpoint that is down; at a chat endpoint that is down
  after the transcription \<^verbatim>\<open>hello\<close>; and at a chat reply
  \<^verbatim>\<open>{"error": "boom", "hashtags": null}\<close> after the same transcription.
\<close>

theorem voice_for_hashtags_failure_handling_witness:
  "snd (process_voice_for_hashtags
          (stub_env (endpoint_down []) (endpoint_down [])
             (endpoint_down (U ''Request timed out.'')))
          (PBytes ''ABC'') (U ''mp3'') (U ''en-US'')) =
     Inr [(U ''transcription'', PStr []),
          (U ''main_topics'', PList []),
          (U ''hashtags'', PList []),
          (U ''error'', PStr (U ''STT processing failed: Request timed out.''))]
   \<and> snd (process_voice_for_hashtags
          (stub_env (endpoint_down (U ''Connection error.'')) (endpoint_down [])
             (transcription_replies (U ''hello'') None))
          (PBytes ''ABC'') (U ''mp3'') (U ''en-US'')) =
     Inr [(U ''transcription'', PStr (U ''hello'')),
          (U ''language'', PStr (U ''en-US'')),
          (U ''duration'', PFloat (Finite 1.5)),
          (U ''confidence'', PFloat (Finite 0.95)),
          (U ''main_topics'', PList [PStr (U ''general'')]),
          (U ''hashtags'', PList [PStr (U ''#general''), PStr (U ''#chat'')]),
          (U ''category'', PStr (U ''other'')),
          (U ''sentiment'', PStr (U ''neutral'')),
          (U ''conversation_style'', PStr (U ''casual'')),
          (U ''summary'', PStr (U ''Could not analyze topics''))]
   \<and> snd (process_voice_for_hashtags
          (stub_env (chat_replies (Some (U ''{\"error\": \"boom\", \"hashtags\": null}'')) None) (endpoint_down [])
             (transcription_replies (U ''hello'') None))
          (PBytes ''ABC'') (U ''mp3'') (U ''en-US'')) =
     Inr [(U ''transcription'', PStr []),
          (U ''main_topics'', PList []),
          (U ''hashtags'', PList []),
          (U ''error'', PStr (U ''object of type '' @ quoted (U ''NoneType'') @ U '' has no len()''))]"
proof -
  have stt: "snd (speech_to_text
          (stub_env (endpoint_down []) (endpoint_down [])
             (endpoint_down (U ''Request timed out.'')))
          (PBytes ''ABC'') (U ''en-US''))
      = Inl (Exn OtherException (U ''STT processing failed: Request timed out.''))"
    by (simp add: speech_to_text_def io_simps py_index0_def stub_env_def endpoint_down_def U_def)
  have first: "snd (process_voice_for_hashtags
          (stub_env (endpoint_down []) (endpoint_down [])
             (endpoint_down (U ''Request timed out.'')))
          (PBytes ''ABC'') (U ''mp3'') (U ''en-US'')) =
     Inr [(U ''transcription'', PStr []),
          (U ''main_topics'', PList []),
          (U ''hashtags'', PList []),
          (U ''error'', PStr (U ''STT processing failed: Request timed out.''))]"
    using voice_for_hashtags_failure_handling
      [of "stub_env (endpoint_down []) (endpoint_down [])
             (endpoint_down (U ''Request timed out.''))"
          "PBytes ''ABC''" "U ''mp3''" "U ''en-US''"] stt
    by simp
  have strip: "py_strip (resp_text \<lparr>resp_text = U ''hello'', resp_language = None,
                   resp_duration = Some (PFloat (Finite 1.5)), resp_words = None\<rparr>) \<noteq> []"
    by (simp add: py_strip_def py_isspace_def U_def)
  have req_down: "audio_transcriptions_create
        (stub_env (endpoint_down (U ''Connection error.'')) (endpoint_down [])
             (transcription_replies (U ''hello'') None))
        (transcription_request (PBytes ''ABC'')
           (if U ''en-US'' = [] then PNone else PStr (takeWhile (\<lambda>c. c \<noteq> 45) (U ''en-US''))))
      = Inr \<lparr>resp_text = U ''hello'', resp_language = None,
                   resp_duration = Some (PFloat (Finite 1.5)), resp_words = None\<rparr>"
    by (simp add: stub_env_def transcription_replies_def)
  have ctx_down: "snd (context_info_of
          (stub_env (endpoint_down (U ''Connection error.'')) (endpoint_down [])
             (transcription_replies (U ''hello'') None))
          (Some [(U ''source'', PStr (U ''voice_input'')),
                 (U ''language'', PStr (U ''en-US'')),
                 (U ''audio_format'', PStr (U ''mp3''))]))
      = Inr (U ''\<newline>User context: ''
             @ U (''{\<newline>''
                  @ ''  \"source\": \"voice_input\",\<newline>''
                  @ ''  \"language\": \"en-US\",\<newline>''
                  @ ''  \"audio_format\": \"mp3\"\<newline>''
                  @ ''}''))"
    by (simp add: context_info_of_def io_simps stub_env_def stub_json_dumps_def)
  have chat_down: "chat_completions_create
          (stub_env (endpoint_down (U ''Connection error.'')) (endpoint_down [])
             (transcription_replies (U ''hello'') None))
          (topics_request (resp_text \<lparr>resp_text = U ''hello'', resp_language = None,
                   resp_duration = Some (PFloat (Finite 1.5)), resp_words = None\<rparr>)
             (U ''\<newline>User context: ''
              @ U (''{\<newline>''
                   @ ''  \"source\": \"voice_input\",\<newline>''
                   @ ''  \"language\": \"en-US\",\<newline>''
                   @ ''  \"audio_format\": \"mp3\"\<newline>''
                   @ ''}''))
             (U ''en-US''))
      = Inl (Exn OtherException (U ''Connection error.''))"
    by (simp add: stub_env_def endpoint_down_def)
  have second: "snd (process_voice_for_hashtags
          (stub_env (endpoint_down (U ''Connection error.'')) (endpoint_down [])
             (transcription_replies (U ''hello'') None))
          (PBytes ''ABC'') (U ''mp3'') (U ''en-US'')) =
     Inr [(U ''transcription'', PStr (U ''hello'')),
          (U ''language'', PStr (U ''en-US'')),
          (U ''duration'', PFloat (Finite 1.5)),
          (U ''confidence'', PFloat (Finite 0.95)),
          (U ''main_topics'', PList [PStr (U ''general'')]),
          (U ''hashtags'', PList [PStr (U ''#general''), PStr (U ''#chat'')]),
          (U ''category'', PStr (U ''other'')),
          (U ''sentiment'', PStr (U ''neutral'')),
          (U ''conversation_style'', PStr (U ''casual'')),
          (U ''summary'', PStr (U ''Could not analyze topics''))]"
    using voice_for_hashtags_failure_handling
      [of "stub_env (endpoint_down (U ''Connection error.'')) (endpoint_down [])
             (transcription_replies (U ''hello'') None)"
          "PBytes ''ABC''" "U ''mp3''" "U ''en-US''"]
      req_down strip ctx_down chat_down
    by simp
  have req_null: "audio_transcriptions_create
        (stub_env (chat_replies (Some (U ''{\"error\": \"boom\", \"hashtags\": null}'')) None) (endpoint_down [])
             (transcription_replies (U ''hello'') None))
        (transcription_request (PBytes ''ABC'')
           (if U ''en-US'' = [] then PNone else PStr (takeWhile (\<lambda>c. c \<noteq> 45) (U ''en-US''))))
      = Inr \<lparr>resp_text = U ''hello'', resp_language = None,
                   resp_duration = Some (PFloat (Finite 1.5)), resp_words = None\<rparr>"
    by (simp add: stub_env_def transcription_replies_def)
  have topics_null: "snd (extract_topics_and_hashtags
          (stub_env (chat_replies (Some (U ''{\"error\": \"boom\", \"hashtags\": null}'')) None) (endpoint_down [])
             (transcription_replies (U ''hello'') None))
          (resp_text \<lparr>resp_text = U ''hello'', resp_language = None,
                   resp_duration = Some (PFloat (Finite 1.5)), resp_words = None\<rparr>)
          (Some [(U ''source'', PStr (U ''voice_input'')),
                 (U ''language'', PStr (U ''en-US'')),
                 (U ''audio_format'', PStr (U ''mp3''))])
          (U ''en-US''))
      = Inr [(U ''error'', PStr (U ''boom'')), (U ''hashtags'', PNone)]"
    by (simp add: extract_topics_and_hashtags_def context_info_of_def io_simps py_index0_def
        py_dict_method_def stub_env_def chat_replies_def stub_json_dumps_def stub_json_loads_def)
  have key_null: "has_key [(U ''error'', PStr (U ''boom'')), (U ''hashtags'', PNone)] (U ''error'')"
    by (simp add: has_key_def)
  have len_null: "snd (py_len (dict_get [(U ''error'', PStr (U ''boom'')), (U ''hashtags'', PNone)]
                         (U ''hashtags'') (PList [])))
      = Inl (Exn TypeError (U ''object of type '' @ quoted (U ''NoneType'') @ U '' has no len()''))"
    by (simp add: py_len_def dict_get_def)
  have third: "snd (process_voice_for_hashtags
          (stub_env (chat_replies (Some (U ''{\"error\": \"boom\", \"hashtags\": null}'')) None) (endpoint_down [])
             (transcription_replies (U ''hello'') None))
          (PBytes ''ABC'') (U ''mp3'') (U ''en-US'')) =
     Inr [(U ''transcription'', PStr []),
          (U ''main_topics'', PList []),
          (U ''hashtags'', PList []),
          (U ''error'', PStr (U ''object of type '' @ quoted (U ''NoneType'') @ U '' has no len()''))]"
    using voice_for_hashtags_failure_handling
      [of "stub_env (chat_replies (Some (U ''{\"error\": \"boom\", \"hashtags\": null}'')) None) (endpoint_down [])
             (transcription_replies (U ''hello'') None)"
          "PBytes ''ABC''" "U ''mp3''" "U ''en-US''"]
      req_null strip topics_null key_null len_null
    by simp
  from first second third show ?thesis by blast
qed

text \<open>
  C1, as stated, fails in three places. On success \<^verbatim>\<open>moderate_room_conversation\<close> returns
  \<^verbatim>\<open>ai_response\<close>, \<^verbatim>\<open>moderation_type\<close>, \<^verbatim>\<open>suggestions\<close>, \<^verbatim>\<open>timestamp\<close> and \<^verbatim>\<open>participants\<close>, but
  when the chat request raises it returns only \<^verbatim>\<open>ai_response\<close> (text and audio, no transcript)
  and \<^verbatim>\<open>error\<close>, with no placeholder for the other four fields. On a reply with no text
  content \<^verbatim>\<open>process_voice_input_for_matching\<close> returns a record without \<^verbatim>\<open>understood_text\<close>,
  \<^verbatim>\<open>extracted_topics\<close>, \<^verbatim>\<open>generated_hashtags\<close> and \<^verbatim>\<open>match_intent\<close>. On the reply \<^verbatim>\<open>{}\<close>
  \<^verbatim>\<open>extract_topics_and_hashtags\<close> returns the empty record.
\<close>

theorem moderation_failure_shape_counterexample:
  "snd (moderate_room_conversation
          (stub_env (chat_replies (Some (U ''Any suggestion?'')) None) (endpoint_down []) (endpoint_down []))
          PNone (Some (U ''Hi all'')) None (Some [U ''ana'', U ''ben'']) (U ''active_host'')) =
     Inr [(U ''ai_response'', PDict [(U ''text'', PStr (U ''Any suggestion?'')),
                                    (U ''audio'', PNone),
                                    (U ''audio_transcript'', PNone)]),
          (U ''moderation_type'', PStr (U ''active_host'')),
          (U ''suggestions'', PList [PStr (emoji_bulb @ U '' AI provided a suggestion'')]),
          (U ''timestamp'', PStr (U ''2024-05-01T12:00:00'')),
          (U ''participants'', PList [PStr (U ''ana''), PStr (U ''ben'')])]
   \<and> snd (moderate_room_conversation
          (stub_env (endpoint_down (U ''Connection error.'')) (endpoint_down []) (endpoint_down []))
          PNone (Some (U ''Hi all'')) None (Some [U ''ana'', U ''ben'']) (U ''active_host'')) =
     Inr [(U ''ai_response'', PDict [(U ''text'', PStr (U ''AI host encountered an issue: Connection error.'')),
                                    (U ''audio'', PNone)]),
          (U ''error'', PStr (U ''Connection error.''))]
   \<and> snd (process_voice_input_for_matching
          (stub_env (chat_replies None (Some \<lparr>reply_data = U ''QUJD'', reply_transcript = U ''Got it''\<rparr>))
             (endpoint_down []) (endpoint_down []))
          (PStr (U ''UklGRg=='')) (U ''wav'') (U ''en-US''))
     = Inr [(U ''audio_response'', PStr (U ''QUJD'')),
            (U ''text_response'', PNone),
            (U ''audio_transcript'', PStr (U ''Got it'')),
            (U ''processing_time'', PStr (U ''2024-05-01T12:00:00''))]
   \<and> snd (extract_topics_and_hashtags
          (stub_env (chat_replies (Some (U ''{}'')) None) (endpoint_down []) (endpoint_down []))
          (U ''I love pasta'') None (U ''en-US'')) = Inr []"
proof -
  have low: "py_lower (stub_env (chat_replies (Some (U ''Any suggestion?'')) None) (endpoint_down []) (endpoint_down []))
               (U ''Any suggestion?'') = U ''any suggestion?''"
    by (simp add: py_lower_def lower_codepoint_def U_def)
  have sug: "extract_suggestions
               (stub_env (chat_replies (Some (U ''Any suggestion?'')) None) (endpoint_down []) (endpoint_down []))
               (U ''Any suggestion?'') = [emoji_bulb @ U '' AI provided a suggestion'']"
    unfolding extract_suggestions_def low by (simp add: U_def)
  have ok: "snd (moderate_room_conversation
          (stub_env (chat_replies (Some (U ''Any suggestion?'')) None) (endpoint_down []) (endpoint_down []))
          PNone (Some (U ''Hi all'')) None (Some [U ''ana'', U ''ben'']) (U ''active_host'')) =
     Inr [(U ''ai_response'', PDict [(U ''text'', PStr (U ''Any suggestion?'')),
                                    (U ''audio'', PNone),
                                    (U ''audio_transcript'', PNone)]),
          (U ''moderation_type'', PStr (U ''active_host'')),
          (U ''suggestions'', PList [PStr (emoji_bulb @ U '' AI provided a suggestion'')]),
          (U ''timestamp'', PStr (U ''2024-05-01T12:00:00'')),
          (U ''participants'', PList [PStr (U ''ana''), PStr (U ''ben'')])]"
    using sug
    by (simp add: moderate_room_conversation_def io_simps py_index0_def opt_str_def
        stub_env_def chat_replies_def)
  have down: "snd (moderate_room_conversation
          (stub_env (endpoint_down (U ''Connection error.'')) (endpoint_down []) (endpoint_down []))
          PNone (Some (U ''Hi all'')) None (Some [U ''ana'', U ''ben'']) (U ''active_host'')) =
     Inr [(U ''ai_response'', PDict [(U ''text'', PStr (U ''AI host encountered an issue: Connection error.'')),
                                    (U ''audio'', PNone)]),
          (U ''error'', PStr (U ''Connection error.''))]"
    by (simp add: moderate_room_conversation_def io_simps stub_env_def endpoint_down_def U_def)
  have pv: "snd (process_voice_input_for_matching
          (stub_env (chat_replies None (Some \<lparr>reply_data = U ''QUJD'', reply_transcript = U ''Got it''\<rparr>))
             (endpoint_down []) (endpoint_down []))
          (PStr (U ''UklGRg=='')) (U ''wav'') (U ''en-US''))
     = Inr [(U ''audio_response'', PStr (U ''QUJD'')),
            (U ''text_response'', PNone),
            (U ''audio_transcript'', PStr (U ''Got it'')),
            (U ''processing_time'', PStr (U ''2024-05-01T12:00:00''))]"
    by (simp add: process_voice_input_for_matching_def io_simps py_index0_def py_dict_method_def
        opt_str_def stub_env_def chat_replies_def)
  have ex: "snd (extract_topics_and_hashtags
          (stub_env (chat_replies (Some (U ''{}'')) None) (endpoint_down []) (endpoint_down []))
          (U ''I love pasta'') None (U ''en-US'')) = Inr []"
    by (simp add: extract_topics_and_hashtags_def context_info_of_def io_simps py_index0_def
        py_dict_method_def stub_env_def chat_replies_def stub_json_loads_def)
  from ok down pv ex show ?thesis by blast
qed

text \<open>
  C1, amended. For every input, \<^verbatim>\<open>process_voice_input_for_matching\<close>,
  \<^verbatim>\<open>moderate_room_conversation\<close>, \<^verbatim>\<open>extract_topics_and_hashtags\<close> and \<^verbatim>\<open>health_check\<close> return a
  record and never raise. \<^verbatim>\<open>health_check\<close> returns a complete record on both paths.
  \<^verbatim>\<open>moderate_room_conversation\<close> returns all five declared fields whenever the chat request
  returns a reply with a message, and only \<^verbatim>\<open>ai_response\<close> and \<^verbatim>\<open>error\<close> when the request
  raises or the reply has no message. \<^verbatim>\<open>process_voice_input_for_matching\<close> always returns \<^verbatim>\<open>audio_response\<close> and
  \<^verbatim>\<open>text_response\<close>; when the request raises it returns placeholders for its six documented
  fields and an \<^verbatim>\<open>error\<close>; when \<^verbatim>\<open>json.loads\<close> rejects the reply text it returns all eight
  fields; when the reply text parses to a JSON object it returns that object updated with
  \<^verbatim>\<open>audio_response\<close>, \<^verbatim>\<open>text_response\<close>, \<^verbatim>\<open>audio_transcript\<close> and \<^verbatim>\<open>processing_time\<close>; when the
  reply has no text content it returns just these four.
  \<^verbatim>\<open>extract_topics_and_hashtags\<close> returns placeholders for all seven fields and an \<^verbatim>\<open>error\<close>
  when the request raises, all seven fields and \<^verbatim>\<open>raw_response\<close> when \<^verbatim>\<open>json.loads\<close> rejects the
  reply text, and on every path a record with all seven fields unless the record is the
  JSON object that \<^verbatim>\<open>json.loads\<close> returned.
\<close>

theorem self_suppressing_operations:
  "(\<exists>d. snd (process_voice_input_for_matching env audio_data audio_format language) = Inr d)
   \<and> (\<exists>d. snd (moderate_room_conversation env room_audio text_input conversation_context
                 room_participants moderation_mode) = Inr d)
   \<and> (\<exists>d. snd (extract_topics_and_hashtags env text context topic_language) = Inr d)
   \<and> (\<exists>d. snd (health_check env) = Inr d)
   \<and> (\<forall>r. audio_speech_create env health_probe_request = Inr r \<longrightarrow>
          snd (health_check env) =
            Inr [(U ''status'', PStr (U ''healthy'')),
                 (U ''service'', PStr (U ''openai_tts'')),
                 (U ''model'', PStr (U ''tts-1'')),
                 (U ''timestamp'', PStr (utcnow_isoformat env))])
   \<and> (\<forall>e. audio_speech_create env health_probe_request = Inl e \<longrightarrow>
          snd (health_check env) =
            Inr [(U ''status'', PStr (U ''unhealthy'')),
                 (U ''service'', PStr (U ''openai_gpt4o_audio'')),
                 (U ''error'', PStr (str_exn e)),
                 (U ''timestamp'', PStr (utcnow_isoformat env))])
   \<and> (\<forall>response message rest.
          chat_completions_create env
             (moderation_request env room_audio text_input conversation_context room_participants
                moderation_mode) = Inr response
          \<and> choices response = message # rest \<longrightarrow>
          snd (moderate_room_conversation env room_audio text_input conversation_context
                 room_participants moderation_mode) =
            Inr [(U ''ai_response'', PDict
                    [(U ''text'', opt_str (msg_content message)),
                     (U ''audio'', (case msg_audio message of None \<Rightarrow> PNone | Some a \<Rightarrow> PStr (reply_data a))),
                     (U ''audio_transcript'', (case msg_audio message of None \<Rightarrow> PNone | Some a \<Rightarrow> PStr (reply_transcript a)))]),
                 (U ''moderation_type'', PStr moderation_mode),
                 (U ''suggestions'', PList (map PStr
                    (extract_suggestions env (case msg_content message of None \<Rightarrow> [] | Some c \<Rightarrow> c)))),
                 (U ''timestamp'', PStr (utcnow_isoformat env)),
                 (U ''participants'', (case room_participants of None \<Rightarrow> PNone | Some ps \<Rightarrow> PList (map PStr ps)))])
   \<and> (\<forall>e. chat_completions_create env
             (moderation_request env room_audio text_input conversation_context room_participants
                moderation_mode) = Inl e \<longrightarrow>
          snd (moderate_room_conversation env room_audio text_input conversation_context
                 room_participants moderation_mode) =
            Inr [(U ''ai_response'', PDict [(U ''text'', PStr (U ''AI host encountered an issue: '' @ str_exn e)),
                                           (U ''audio'', PNone)]),
                 (U ''error'', PStr (str_exn e))])
   \<and> (\<forall>response.
          chat_completions_create env
             (moderation_request env room_audio text_input conversation_context room_participants
                moderation_mode) = Inr response
          \<and> choices response = [] \<longrightarrow>
          snd (moderate_room_conversation env room_audio text_input conversation_context
                 room_participants moderation_mode) =
            Inr [(U ''ai_response'', PDict [(U ''text'', PStr (U ''AI host encountered an issue: list index out of range'')),
                                           (U ''audio'', PNone)]),
                 (U ''error'', PStr (U ''list index out of range''))])
   \<and> (\<forall>e. chat_completions_create env (matching_request env audio_data audio_format language) = Inl e \<longrightarrow>
          snd (process_voice_input_for_matching env audio_data audio_format language) =
            Inr [(U ''understood_text'', PStr (U ''Sorry, I didn't understand what you said'')),
                 (U ''extracted_topics'', PList [PStr (U ''General topic'')]),
                 (U ''generated_hashtags'', PList [PStr (U ''#general'')]),
                 (U ''match_intent'', PStr (U ''General chat'')),
                 (U ''audio_response'', PNone),
                 (U ''text_response'', PStr (U ''Error processing voice input: '' @ str_exn e)),
                 (U ''error'', PStr (str_exn e))])
   \<and> (\<forall>d. snd (process_voice_input_for_matching env audio_data audio_format language) = Inr d \<longrightarrow>
          has_key d (U ''audio_response'') \<and> has_key d (U ''text_response''))
   \<and> (\<forall>response message rest content e.
          chat_completions_create env (matching_request env audio_data audio_format language) = Inr response
          \<and> choices response = message # rest
          \<and> msg_content message = Some content \<and> content \<noteq> []
          \<and> json_loads env content = Inl e \<and> exn_class_of e = JSONDecodeError \<longrightarrow>
          snd (process_voice_input_for_matching env audio_data audio_format language) =
            Inr [(U ''understood_text'', PStr content),
                 (U ''extracted_topics'', PList [PStr (U ''General topic'')]),
                 (U ''generated_hashtags'', PList [PStr (U ''#general'')]),
                 (U ''match_intent'', PStr (U ''Wants to chat'')),
                 (U ''audio_response'', (case msg_audio message of None \<Rightarrow> PNone | Some a \<Rightarrow> PStr (reply_data a))),
                 (U ''text_response'', PStr content),
                 (U ''audio_transcript'', (case msg_audio message of None \<Rightarrow> PNone | Some a \<Rightarrow> PStr (reply_transcript a))),
                 (U ''processing_time'', PStr (utcnow_isoformat env))])
   \<and> (\<forall>response message rest content obj.
          chat_completions_create env (matching_request env audio_data audio_format language) = Inr response
          \<and> choices response = message # rest
          \<and> msg_content message = Some content \<and> content \<noteq> []
          \<and> json_loads env content = Inr (PDict obj) \<longrightarrow>
          snd (process_voice_input_for_matching env audio_data audio_format language) =
            Inr (dict_update obj
                 [(U ''audio_response'', (case msg_audio message of None \<Rightarrow> PNone | Some a \<Rightarrow> PStr (reply_data a))),
                  (U ''text_response'', opt_str (msg_content message)),
                  (U ''audio_transcript'', (case msg_audio message of None \<Rightarrow> PNone | Some a \<Rightarrow> PStr (reply_transcript a))),
                  (U ''processing_time'', PStr (utcnow_isoformat env))]))
   \<and> (\<forall>response message rest.
          chat_completions_create env (matching_request env audio_data audio_format language) = Inr response
          \<and> choices response = message # rest
          \<and> (msg_content message = None \<or> msg_content message = Some []) \<longrightarrow>
          snd (process_voice_input_for_matching env audio_data audio_format language) =
            Inr [(U ''audio_response'', (case msg_audio message of None \<Rightarrow> PNone | Some a \<Rightarrow> PStr (reply_data a))),
                 (U ''text_response'', opt_str (msg_content message)),
                 (U ''audio_transcript'', (case msg_audio message of None \<Rightarrow> PNone | Some a \<Rightarrow> PStr (reply_transcript a))),
                 (U ''processing_time'', PStr (utcnow_isoformat env))])
   \<and> (\<forall>ci e. snd (context_info_of env context) = Inr ci
          \<and> chat_completions_create env (topics_request text ci topic_language) = Inl e \<longrightarrow>
          snd (extract_topics_and_hashtags env text context topic_language) =
            Inr [(U ''main_topics'', PList [PStr (U ''general'')]),
                 (U ''hashtags'', PList [PStr (U ''#general''), PStr (U ''#chat'')]),
                 (U ''category'', PStr (U ''other'')),
                 (U ''sentiment'', PStr (U ''neutral'')),
                 (U ''conversation_style'', PStr (U ''casual'')),
                 (U ''confidence'', PFloat (Finite 0.1)),
                 (U ''summary'', PStr (U ''Could not analyze topics'')),
                 (U ''error'', PStr (str_exn e))])
   \<and> (\<forall>ci response message rest content e.
          snd (context_info_of env context) = Inr ci
          \<and> chat_completions_create env (topics_request text ci topic_language) = Inr response
          \<and> choices response = message # rest
          \<and> msg_content message = Some content
          \<and> json_loads env content = Inl e \<and> exn_class_of e = JSONDecodeError \<longrightarrow>
          snd (extract_topics_and_hashtags env text context topic_language) =
            Inr [(U ''main_topics'', PList [PStr (U ''general''), PStr (U ''conversation'')]),
                 (U ''hashtags'', PList [PStr (U ''#chat''), PStr (U ''#social''), PStr (U ''#conversation'')]),
                 (U ''category'', PStr (U ''other'')),
                 (U ''sentiment'', PStr (U ''neutral'')),
                 (U ''conversation_style'', PStr (U ''casual'')),
                 (U ''confidence'', PFloat (Finite 0.5)),
                 (U ''summary'', PStr (U ''General conversation topic'')),
                 (U ''raw_response'', PStr content)])
   \<and> (\<forall>d. snd (extract_topics_and_hashtags env text context topic_language) = Inr d \<longrightarrow>
          list_all (has_key d)
            [U ''main_topics'', U ''hashtags'', U ''category'', U ''sentiment'',
                  U ''conversation_style'', U ''confidence'', U ''summary'']
          \<or> (\<exists>content. json_loads env content = Inr (PDict d)))"
proof -
  have H1: "\<forall>r. audio_speech_create env health_probe_request = Inr r \<longrightarrow>
          snd (health_check env) =
            Inr [(U ''status'', PStr (U ''healthy'')),
                 (U ''service'', PStr (U ''openai_tts'')),
                 (U ''model'', PStr (U ''tts-1'')),
                 (U ''timestamp'', PStr (utcnow_isoformat env))]"
    by (simp add: health_check_def io_simps)
  have H2: "\<forall>e. audio_speech_create env health_probe_request = Inl e \<longrightarrow>
          snd (health_check env) =
            Inr [(U ''status'', PStr (U ''unhealthy'')),
                 (U ''service'', PStr (U ''openai_gpt4o_audio'')),
                 (U ''error'', PStr (str_exn e)),
                 (U ''timestamp'', PStr (utcnow_isoformat env))]"
    by (simp add: health_check_def io_simps)
  have M1: "\<forall>response message rest.
          chat_completions_create env
             (moderation_request env room_audio text_input conversation_context room_participants
                moderation_mode) = Inr response
          \<and> choices response = message # rest \<longrightarrow>
          snd (moderate_room_conversation env room_audio text_input conversation_context
                 room_participants moderation_mode) =
            Inr [(U ''ai_response'', PDict
                    [(U ''text'', opt_str (msg_content message)),
                     (U ''audio'', (case msg_audio message of None \<Rightarrow> PNone | Some a \<Rightarrow> PStr (reply_data a))),
                     (U ''audio_transcript'', (case msg_audio message of None \<Rightarrow> PNone | Some a \<Rightarrow> PStr (reply_transcript a)))]),
                 (U ''moderation_type'', PStr moderation_mode),
                 (U ''suggestions'', PList (map PStr
                    (extract_suggestions env (case msg_content message of None \<Rightarrow> [] | Some c \<Rightarrow> c)))),
                 (U ''timestamp'', PStr (utcnow_isoformat env)),
                 (U ''participants'', (case room_participants of None \<Rightarrow> PNone | Some ps \<Rightarrow> PList (map PStr ps)))]"
    by (simp add: moderate_room_conversation_def io_simps py_index0_def)
  have M2: "\<forall>e. chat_completions_create env
             (moderation_request env room_audio text_input conversation_context room_participants
                moderation_mode) = Inl e \<longrightarrow>
          snd (moderate_room_conversation env room_audio text_input conversation_context
                 room_participants moderation_mode) =
            Inr [(U ''ai_response'', PDict [(U ''text'', PStr (U ''AI host encountered an issue: '' @ str_exn e)),
                                           (U ''audio'', PNone)]),
                 (U ''error'', PStr (str_exn e))]"
    by (simp add: moderate_room_conversation_def io_simps)
  have P1: "\<forall>e. chat_completions_create env (matching_request env audio_data audio_format language) = Inl e \<longrightarrow>
          snd (process_voice_input_for_matching env audio_data audio_format language) =
            Inr [(U ''understood_text'', PStr (U ''Sorry, I didn't understand what you said'')),
                 (U ''extracted_topics'', PList [PStr (U ''General topic'')]),
                 (U ''generated_hashtags'', PList [PStr (U ''#general'')]),
                 (U ''match_intent'', PStr (U ''General chat'')),
                 (U ''audio_response'', PNone),
                 (U ''text_response'', PStr (U ''Error processing voice input: '' @ str_exn e)),
                 (U ''error'', PStr (str_exn e))]"
    by (simp add: process_voice_input_for_matching_def io_simps)
  have P3: "\<forall>response message rest content e.
          chat_completions_create env (matching_request env audio_data audio_format language) = Inr response
          \<and> choices response = message # rest
          \<and> msg_content message = Some content \<and> content \<noteq> []
          \<and> json_loads env content = Inl e \<and> exn_class_of e = JSONDecodeError \<longrightarrow>
          snd (process_voice_input_for_matching env audio_data audio_format language) =
            Inr [(U ''understood_text'', PStr content),
                 (U ''extracted_topics'', PList [PStr (U ''General topic'')]),
                 (U ''generated_hashtags'', PList [PStr (U ''#general'')]),
                 (U ''match_intent'', PStr (U ''Wants to chat'')),
                 (U ''audio_response'', (case msg_audio message of None \<Rightarrow> PNone | Some a \<Rightarrow> PStr (reply_data a))),
                 (U ''text_response'', PStr content),
                 (U ''audio_transcript'', (case msg_audio message of None \<Rightarrow> PNone | Some a \<Rightarrow> PStr (reply_transcript a))),
                 (U ''processing_time'', PStr (utcnow_isoformat env))]"
    by (simp add: process_voice_input_for_matching_def io_simps py_index0_def py_dict_method_def opt_str_def)
  have P4: "\<forall>response message rest content obj.
          chat_completions_create env (matching_request env audio_data audio_format language) = Inr response
          \<and> choices response = message # rest
          \<and> msg_content message = Some content \<and> content \<noteq> []
          \<and> json_loads env content = Inr (PDict obj) \<longrightarrow>
          snd (process_voice_input_for_matching env audio_data audio_format language) =
            Inr (dict_update obj
                 [(U ''audio_response'', (case msg_audio message of None \<Rightarrow> PNone | Some a \<Rightarrow> PStr (reply_data a))),
                  (U ''text_response'', opt_str (msg_content message)),
                  (U ''audio_transcript'', (case msg_audio message of None \<Rightarrow> PNone | Some a \<Rightarrow> PStr (reply_transcript a))),
                  (U ''processing_time'', PStr (utcnow_isoformat env))])"
    by (simp add: process_voice_input_for_matching_def io_simps py_index0_def py_dict_method_def)
  have E1: "\<forall>ci e. snd (context_info_of env context) = Inr ci
          \<and> chat_completions_create env (topics_request text ci topic_language) = Inl e \<longrightarrow>
          snd (extract_topics_and_hashtags env text context topic_language) =
            Inr [(U ''main_topics'', PList [PStr (U ''general'')]),
                 (U ''hashtags'', PList [PStr (U ''#general''), PStr (U ''#chat'')]),
                 (U ''category'', PStr (U ''other'')),
                 (U ''sentiment'', PStr (U ''neutral'')),
                 (U ''conversation_style'', PStr (U ''casual'')),
                 (U ''confidence'', PFloat (Finite 0.1)),
                 (U ''summary'', PStr (U ''Could not analyze topics'')),
                 (U ''error'', PStr (str_exn e))]"
    by (simp add: extract_topics_and_hashtags_def io_simps)
  have E2: "\<forall>ci response message rest content e.
          snd (context_info_of env context) = Inr ci
          \<and> chat_completions_create env (topics_request text ci topic_language) = Inr response
          \<and> choices response = message # rest
          \<and> msg_content message = Some content
          \<and> json_loads env content = Inl e \<and> exn_class_of e = JSONDecodeError \<longrightarrow>
          snd (extract_topics_and_hashtags env text context topic_language) =
            Inr [(U ''main_topics'', PList [PStr (U ''general''), PStr (U ''conversation'')]),
                 (U ''hashtags'', PList [PStr (U ''#chat''), PStr (U ''#social''), PStr (U ''#conversation'')]),
                 (U ''category'', PStr (U ''other'')),
                 (U ''sentiment'', PStr (U ''neutral'')),
                 (U ''conversation_style'', PStr (U ''casual'')),
                 (U ''confidence'', PFloat (Finite 0.5)),
                 (U ''summary'', PStr (U ''General conversation topic'')),
                 (U ''raw_response'', PStr content)]"
    by (simp add: extract_topics_and_hashtags_def io_simps py_index0_def opt_str_def)
  have M3: "\<forall>response.
          chat_completions_create env
             (moderation_request env room_audio text_input conversation_context room_participants
                moderation_mode) = Inr response
          \<and> choices response = [] \<longrightarrow>
          snd (moderate_room_conversation env room_audio text_input conversation_context
                 room_participants moderation_mode) =
            Inr [(U ''ai_response'', PDict [(U ''text'', PStr (U ''AI host encountered an issue: list index out of range'')),
                                           (U ''audio'', PNone)]),
                 (U ''error'', PStr (U ''list index out of range''))]"
    by (simp add: moderate_room_conversation_def io_simps py_index0_def U_def)
  have P5: "\<forall>response message rest.
          chat_completions_create env (matching_request env audio_data audio_format language) = Inr response
          \<and> choices response = message # rest
          \<and> (msg_content message = None \<or> msg_content message = Some []) \<longrightarrow>
          snd (process_voice_input_for_matching env audio_data audio_format language) =
            Inr [(U ''audio_response'', (case msg_audio message of None \<Rightarrow> PNone | Some a \<Rightarrow> PStr (reply_data a))),
                 (U ''text_response'', opt_str (msg_content message)),
                 (U ''audio_transcript'', (case msg_audio message of None \<Rightarrow> PNone | Some a \<Rightarrow> PStr (reply_transcript a))),
                 (U ''processing_time'', PStr (utcnow_isoformat env))]"
    by (auto simp: process_voice_input_for_matching_def io_simps py_index0_def py_dict_method_def)
  have P2: "\<forall>d. snd (process_voice_input_for_matching env audio_data audio_format language) = Inr d \<longrightarrow>
          has_key d (U ''audio_response'') \<and> has_key d (U ''text_response'')"
    by (auto simp: process_voice_input_for_matching_def io_simps py_index0_def py_dict_method_def
        has_key_def map_of_dict_set
        split: sum.splits list.splits option.splits pyval.splits if_splits)
  have E3: "\<forall>d. snd (extract_topics_and_hashtags env text context topic_language) = Inr d \<longrightarrow>
          list_all (has_key d)
            [U ''main_topics'', U ''hashtags'', U ''category'', U ''sentiment'',
                  U ''conversation_style'', U ''confidence'', U ''summary'']
          \<or> (\<exists>content. json_loads env content = Inr (PDict d))"
    by (auto simp: extract_topics_and_hashtags_def io_simps py_index0_def py_dict_method_def
        has_key_def
        split: sum.splits list.splits option.splits pyval.splits if_splits)
  show ?thesis
    using process_voice_input_for_matching_returns moderate_room_conversation_returns
      extract_topics_and_hashtags_returns health_check_returns
      H1 H2 M1 M2 M3 P1 P2 P3 P4 P5 E1 E2 E3
    by blast
qed

text \<open>
  The amended C1 with the chat and synthesis endpoints down, and with a chat reply of plain
  prose and a synthesis endpoint that answers.
\<close>

theorem self_suppressing_operations_witness:
  "snd (process_voice_input_for_matching
          (stub_env (endpoint_down (U ''Connection error.'')) (endpoint_down (U ''Connection error.'')) (endpoint_down []))
          (PStr (U ''UklGRg=='')) (U ''wav'') (U ''en-US'')) =
     Inr [(U ''understood_text'', PStr (U ''Sorry, I didn't understand what you said'')),
          (U ''extracted_topics'', PList [PStr (U ''General topic'')]),
          (U ''generated_hashtags'', PList [PStr (U ''#general'')]),
          (U ''match_intent'', PStr (U ''General chat'')),
          (U ''audio_response'', PNone),
          (U ''text_response'', PStr (U ''Error processing voice input: Connection error.'')),
          (U ''error'', PStr (U ''Connection error.''))]
   \<and> snd (moderate_room_conversation
          (stub_env (endpoint_down (U ''Connection error.'')) (endpoint_down (U ''Connection error.'')) (endpoint_down []))
          PNone (Some (U ''Hi all'')) None (Some [U ''ana'', U ''ben'']) (U ''active_host'')) =
     Inr [(U ''ai_response'', PDict [(U ''text'', PStr (U ''AI host encountered an issue: Connection error.'')),
                                    (U ''audio'', PNone)]),
          (U ''error'', PStr (U ''Connection error.''))]
   \<and> snd (extract_topics_and_hashtags
          (stub_env (endpoint_down (U ''Connection error.'')) (endpoint_down (U ''Connection error.'')) (endpoint_down []))
          (U ''I love pasta'') None (U ''en-US'')) =
     Inr [(U ''main_topics'', PList [PStr (U ''general'')]),
          (U ''hashtags'', PList [PStr (U ''#general''), PStr (U ''#chat'')]),
          (U ''category'', PStr (U ''other'')),
          (U ''sentiment'', PStr (U ''neutral'')),
          (U ''conversation_style'', PStr (U ''casual'')),
          (U ''confidence'', PFloat (Finite 0.1)),
          (U ''summary'', PStr (U ''Could not analyze topics'')),
          (U ''error'', PStr (U ''Connection error.''))]
   \<and> snd (health_check
          (stub_env (endpoint_down (U ''Connection error.'')) (endpoint_down (U ''Connection error.'')) (endpoint_down []))) =
     Inr [(U ''status'', PStr (U ''unhealthy'')),
          (U ''service'', PStr (U ''openai_gpt4o_audio'')),
          (U ''error'', PStr (U ''Connection error.'')),
          (U ''timestamp'', PStr (U ''2024-05-01T12:00:00''))]
   \<and> snd (process_voice_input_for_matching
          (stub_env (chat_replies (Some (U ''Any suggestion?'')) None) (speech_replies ''RIFF'') (endpoint_down []))
          (PStr (U ''UklGRg=='')) (U ''wav'') (U ''en-US'')) =
     Inr [(U ''understood_text'', PStr (U ''Any suggestion?'')),
          (U ''extracted_topics'', PList [PStr (U ''General topic'')]),
          (U ''generated_hashtags'', PList [PStr (U ''#general'')]),
          (U ''match_intent'', PStr (U ''Wants to chat'')),
          (U ''audio_response'', PNone),
          (U ''text_response'', PStr (U ''Any suggestion?'')),
          (U ''audio_transcript'', PNone),
          (U ''processing_time'', PStr (U ''2024-05-01T12:00:00''))]
   \<and> snd (moderate_room_conversation
          (stub_env (chat_replies (Some (U ''Any suggestion?'')) None) (speech_replies ''RIFF'') (endpoint_down []))
          PNone (Some (U ''Hi all'')) None (Some [U ''ana'', U ''ben'']) (U ''active_host'')) =
     Inr [(U ''ai_response'', PDict [(U ''text'', PStr (U ''Any suggestion?'')),
                                    (U ''audio'', PNone),
                                    (U ''audio_transcript'', PNone)]),
          (U ''moderation_type'', PStr (U ''active_host'')),
          (U ''suggestions'', PList [PStr (emoji_bulb @ U '' AI provided a suggestion'')]),
          (U ''timestamp'', PStr (U ''2024-05-01T12:00:00'')),
          (U ''participants'', PList [PStr (U ''ana''), PStr (U ''ben'')])]
   \<and> snd (extract_topics_and_hashtags
          (stub_env (chat_replies (Some (U ''Any suggestion?'')) None) (speech_replies ''RIFF'') (endpoint_down []))
          (U ''I love pasta'') None (U ''en-US'')) =
     Inr [(U ''main_topics'', PList [PStr (U ''general''), PStr (U ''conversation'')]),
          (U ''hashtags'', PList [PStr (U ''#chat''), PStr (U ''#social''), PStr (U ''#conversation'')]),
          (U ''category'', PStr (U ''other'')),
          (U ''sentiment'', PStr (U ''neutral'')),
          (U ''conversation_style'', PStr (U ''casual'')),
          (U ''confidence'', PFloat (Finite 0.5)),
          (U ''summary'', PStr (U ''General conversation topic'')),
          (U ''raw_response'', PStr (U ''Any suggestion?''))]
   \<and> snd (health_check
          (stub_env (chat_replies (Some (U ''Any suggestion?'')) None) (speech_replies ''RIFF'') (endpoint_down []))) =
     Inr [(U ''status'', PStr (U ''healthy'')),
          (U ''service'', PStr (U ''openai_tts'')),
          (U ''model'', PStr (U ''tts-1'')),
          (U ''timestamp'', PStr (U ''2024-05-01T12:00:00''))]"
proof -
  have down: "snd (process_voice_input_for_matching
          (stub_env (endpoint_down (U ''Connection error.'')) (endpoint_down (U ''Connection error.'')) (endpoint_down []))
          (PStr (U ''UklGRg=='')) (U ''wav'') (U ''en-US'')) =
     Inr [(U ''understood_text'', PStr (U ''Sorry, I didn't understand what you said'')),
          (U ''extracted_topics'', PList [PStr (U ''General topic'')]),
          (U ''generated_hashtags'', PList [PStr (U ''#general'')]),
          (U ''match_intent'', PStr (U ''General chat'')),
          (U ''audio_response'', PNone),
          (U ''text_response'', PStr (U ''Error processing voice input: Connection error.'')),
          (U ''error'', PStr (U ''Connection error.''))]
   \<and> snd (moderate_room_conversation
          (stub_env (endpoint_down (U ''Connection error.'')) (endpoint_down (U ''Connection error.'')) (endpoint_down []))
          PNone (Some (U ''Hi all'')) None (Some [U ''ana'', U ''ben'']) (U ''active_host'')) =
     Inr [(U ''ai_response'', PDict [(U ''text'', PStr (U ''AI host encountered an issue: Connection error.'')),
                                    (U ''audio'', PNone)]),
          (U ''error'', PStr (U ''Connection error.''))]
   \<and> snd (extract_topics_and_hashtags
          (stub_env (endpoint_down (U ''Connection error.'')) (endpoint_down (U ''Connection error.'')) (endpoint_down []))
          (U ''I love pasta'') None (U ''en-US'')) =
     Inr [(U ''main_topics'', PList [PStr (U ''general'')]),
          (U ''hashtags'', PList [PStr (U ''#general''), PStr (U ''#chat'')]),
          (U ''category'', PStr (U ''other'')),
          (U ''sentiment'', PStr (U ''neutral'')),
          (U ''conversation_style'', PStr (U ''casual'')),
          (U ''confidence'', PFloat (Finite 0.1)),
          (U ''summary'', PStr (U ''Could not analyze topics'')),
          (U ''error'', PStr (U ''Connection error.''))]
   \<and> snd (health_check
          (stub_env (endpoint_down (U ''Connection error.'')) (endpoint_down (U ''Connection error.'')) (endpoint_down []))) =
     Inr [(U ''status'', PStr (U ''unhealthy'')),
          (U ''service'', PStr (U ''openai_gpt4o_audio'')),
          (U ''error'', PStr (U ''Connection error.'')),
          (U ''timestamp'', PStr (U ''2024-05-01T12:00:00''))]"
    using self_suppressing_operations
      [of "stub_env (endpoint_down (U ''Connection error.'')) (endpoint_down (U ''Connection error.'')) (endpoint_down [])"
        "PStr (U ''UklGRg=='')" "U ''wav''" "U ''en-US''"
        PNone "Some (U ''Hi all'')" None "Some [U ''ana'', U ''ben'']" "U ''active_host''"
        "U ''I love pasta''" None "U ''en-US''"]
    by (simp add: stub_env_def endpoint_down_def context_info_of_def U_def)
  have low: "py_lower (stub_env (chat_replies (Some (U ''Any suggestion?'')) None) (speech_replies ''RIFF'') (endpoint_down []))
               (U ''Any suggestion?'') = U ''any suggestion?''"
    by (simp add: py_lower_def lower_codepoint_def U_def)
  have sug: "extract_suggestions (stub_env (chat_replies (Some (U ''Any suggestion?'')) None) (speech_replies ''RIFF'') (endpoint_down []))
               (U ''Any suggestion?'') = [emoji_bulb @ U '' AI provided a suggestion'']"
    unfolding extract_suggestions_def low by (simp add: U_def)
  have ok: "snd (process_voice_input_for_matching
          (stub_env (chat_replies (Some (U ''Any suggestion?'')) None) (speech_replies ''RIFF'') (endpoint_down []))
          (PStr (U ''UklGRg=='')) (U ''wav'') (U ''en-US'')) =
     Inr [(U ''understood_text'', PStr (U ''Any suggestion?'')),
          (U ''extracted_topics'', PList [PStr (U ''General topic'')]),
          (U ''generated_hashtags'', PList [PStr (U ''#general'')]),
          (U ''match_intent'', PStr (U ''Wants to chat'')),
          (U ''audio_response'', PNone),
          (U ''text_response'', PStr (U ''Any suggestion?'')),
          (U ''audio_transcript'', PNone),
          (U ''processing_time'', PStr (U ''2024-05-01T12:00:00''))]
   \<and> snd (moderate_room_conversation
          (stub_env (chat_replies (Some (U ''Any suggestion?'')) None) (speech_replies ''RIFF'') (endpoint_down []))
          PNone (Some (U ''Hi all'')) None (Some [U ''ana'', U ''ben'']) (U ''active_host'')) =
     Inr [(U ''ai_response'', PDict [(U ''text'', PStr (U ''Any suggestion?'')),
                                    (U ''audio'', PNone),
                                    (U ''audio_transcript'', PNone)]),
          (U ''moderation_type'', PStr (U ''active_host'')),
          (U ''suggestions'', PList [PStr (emoji_bulb @ U '' AI provided a suggestion'')]),
          (U ''timestamp'', PStr (U ''2024-05-01T12:00:00'')),
          (U ''participants'', PList [PStr (U ''ana''), PStr (U ''ben'')])]
   \<and> snd (extract_topics_and_hashtags
          (stub_env (chat_replies (Some (U ''Any suggestion?'')) None) (speech_replies ''RIFF'') (endpoint_down []))
          (U ''I love pasta'') None (U ''en-US'')) =
     Inr [(U ''main_topics'', PList [PStr (U ''general''), PStr (U ''conversation'')]),
          (U ''hashtags'', PList [PStr (U ''#chat''), PStr (U ''#social''), PStr (U ''#conversation'')]),
          (U ''category'', PStr (U ''other'')),
          (U ''sentiment'', PStr (U ''neutral'')),
          (U ''conversation_style'', PStr (U ''casual'')),
          (U ''confidence'', PFloat (Finite 0.5)),
          (U ''summary'', PStr (U ''General conversation topic'')),
          (U ''raw_response'', PStr (U ''Any suggestion?''))]
   \<and> snd (health_check
          (stub_env (chat_replies (Some (U ''Any suggestion?'')) None) (speech_replies ''RIFF'') (endpoint_down []))) =
     Inr [(U ''status'', PStr (U ''healthy'')),
          (U ''service'', PStr (U ''openai_tts'')),
          (U ''model'', PStr (U ''tts-1'')),
          (U ''timestamp'', PStr (U ''2024-05-01T12:00:00''))]"
    using self_suppressing_operations
      [of "stub_env (chat_replies (Some (U ''Any suggestion?'')) None) (speech_replies ''RIFF'') (endpoint_down [])"
        "PStr (U ''UklGRg=='')" "U ''wav''" "U ''en-US''"
        PNone "Some (U ''Hi all'')" None "Some [U ''ana'', U ''ben'']" "U ''active_host''"
        "U ''I love pasta''" None "U ''en-US''"] sug
    by (simp add: stub_env_def chat_replies_def speech_replies_def context_info_of_def
        stub_json_loads_def opt_str_def)
  from down ok show ?thesis by blast
qed

end
